theory Spec2Isabelle
  imports Main
begin

section \<open>Python strings\<close>

text \<open>
  A Python \<open>str\<close> is a sequence of Unicode code points; it is modelled as a list of
  naturals.  The ASCII literals of the source (field keys, enumerated values, callback
  tokens) are written \<open>asc ''...''\<close>; the Cyrillic literals are written as code points.
\<close>

type_synonym pystr = "nat list"

definition asc :: "string \<Rightarrow> pystr" where
  "asc s = map of_char s"

text \<open>Truthiness of an \<open>Optional[str]\<close>: \<open>None\<close> and the empty string are falsy.\<close>

fun truthy :: "pystr option \<Rightarrow> bool" where
  "truthy None = False"
| "truthy (Some s) = (s \<noteq> [])"

text \<open>\<open>seq.index(x)\<close> for an element that occurs in the list.\<close>

fun index_of :: "'a \<Rightarrow> 'a list \<Rightarrow> nat" where
  "index_of x [] = 0"
| "index_of x (y # ys) = (if x = y then 0 else Suc (index_of x ys))"

text \<open>\<open>seq.insert(i, x)\<close> for \<open>0 \<le> i\<close>; an index beyond the end appends.\<close>

definition list_insert :: "nat \<Rightarrow> 'a \<Rightarrow> 'a list \<Rightarrow> 'a list" where
  "list_insert i x xs = take i xs @ x # drop i xs"

section \<open>The ticket\<close>

text \<open>
  The dataclass \<open>Ticket\<close>, every attribute with its declared type: \<open>Optional[str]\<close>
  is \<open>pystr option\<close>, \<open>dtp_vehicles\<close> is the dictionary \<open>Dict[str, int]\<close>.  The
  attributes \<open>id\<close> and \<open>notes\<close> are named \<open>id_f\<close> and \<open>notes_f\<close>.
\<close>

record ticket =
  id_f :: pystr
  user_id :: int
  username :: "pystr option"
  created_at :: pystr
  incident_type :: "pystr option"
  incident_source :: "pystr option"
  dtp_type :: "pystr option"
  incident_time :: "pystr option"
  brand :: "pystr option"
  plate_vats :: "pystr option"
  plate_ref :: "pystr option"
  dtp_vehicles :: "pystr \<rightharpoonup> int"
  location :: "pystr option"
  dtp_damage_text :: "pystr option"
  obstacle_on_road :: "pystr option"
  break_symptoms :: "pystr option"
  problem_desc :: "pystr option"
  notes_f :: "pystr option"
  jira_main :: "pystr option"
  ra_need_dtp_formalization :: "pystr option"
  ra_need_diagnosis :: "pystr option"
  ra_need_repair :: "pystr option"
  ra_need_evacuation :: "pystr option"
  ra_called_112 :: "pystr option"
  ra_chat_id :: "int option"

section \<open>Step catalog\<close>

text \<open>The nested helper \<open>_maybe_add_plate_ref\<close> of \<open>_steps_for_primary\<close>.\<close>

definition maybe_add_plate_ref :: "ticket option \<Rightarrow> pystr list \<Rightarrow> pystr list" where
  "maybe_add_plate_ref t seq =
     (case t of
        None \<Rightarrow> seq
      | Some tk \<Rightarrow>
          if brand tk = Some (asc ''SITRAK'')
          then (let insert_after =
                      (if asc ''plate_vats'' \<in> set seq
                       then index_of (asc ''plate_vats'') seq + 1 else length seq)
                in list_insert insert_after (asc ''plate_ref'') seq)
          else seq)"

definition is_dtp :: "ticket option \<Rightarrow> bool" where
  "is_dtp t = (case t of None \<Rightarrow> False | Some tk \<Rightarrow> incident_type tk = Some (asc ''DTP''))"

definition steps_for_primary :: "ticket option \<Rightarrow> pystr list" where
  "steps_for_primary t =
     (if is_dtp t
      then maybe_add_plate_ref t
             [asc ''incident_type'', asc ''incident_source'', asc ''dtp_type'', asc ''brand'',
              asc ''plate_vats'', asc ''dtp_vehicles'', asc ''location'', asc ''dtp_damage_text'',
              asc ''problem_desc'', asc ''obstacle_on_road'', asc ''notes'']
      else maybe_add_plate_ref t
             [asc ''incident_type'', asc ''incident_source'', asc ''brand'', asc ''plate_vats'',
              asc ''location'', asc ''break_symptoms'', asc ''problem_desc'',
              asc ''obstacle_on_road'', asc ''notes''])"

definition steps_for_ra :: "ticket option \<Rightarrow> pystr list" where
  "steps_for_ra t =
     (if is_dtp t
      then [asc ''ra_need_dtp_formalization'', asc ''ra_need_diagnosis'', asc ''ra_need_repair'',
            asc ''ra_need_evacuation'', asc ''ra_called_112'']
      else [asc ''ra_need_diagnosis'', asc ''ra_need_repair'', asc ''ra_need_evacuation''])"

text \<open>A ticket with every optional attribute unset, the starting point of concrete examples.\<close>

definition blank_ticket :: ticket where
  "blank_ticket = \<lparr> id_f = [], user_id = 0, username = None, created_at = [],
     incident_type = None, incident_source = None, dtp_type = None, incident_time = None,
     brand = None, plate_vats = None, plate_ref = None, dtp_vehicles = Map.empty,
     location = None, dtp_damage_text = None, obstacle_on_road = None, break_symptoms = None,
     problem_desc = None, notes_f = None, jira_main = None, ra_need_dtp_formalization = None,
     ra_need_diagnosis = None, ra_need_repair = None, ra_need_evacuation = None,
     ra_called_112 = None, ra_chat_id = None \<rparr>"

section \<open>Closing the tracker issue\<close>

text \<open>
  \<open>str.isspace\<close> for one code point: the white space of the Unicode database, which
  \<open>str.strip()\<close> removes from both ends.
\<close>

definition py_isspace :: "nat \<Rightarrow> bool" where
  "py_isspace c \<longleftrightarrow>
     (9 \<le> c \<and> c \<le> 13) \<or> (28 \<le> c \<and> c \<le> 32) \<or> c = 133 \<or> c = 160 \<or> c = 5760
     \<or> (8192 \<le> c \<and> c \<le> 8202) \<or> c = 8232 \<or> c = 8233 \<or> c = 8239 \<or> c = 8287
     \<or> c = 12288"

definition strip :: "pystr \<Rightarrow> pystr" where
  "strip s = rev (dropWhile py_isspace (rev (dropWhile py_isspace s)))"

text \<open>\<open>x or ""\<close> for an optional string.\<close>

fun or_empty :: "pystr option \<Rightarrow> pystr" where
  "or_empty None = []"
| "or_empty (Some s) = s"

text \<open>
  One entry of the tracker's transitions list, as the code reads it: \<open>tr.get("id")\<close>,
  \<open>tr.get("name")\<close> and \<open>(tr.get("to") or {}).get("name")\<close>, each \<open>None\<close> when the key is
  missing.
\<close>

record transition =
  tr_id :: "pystr option"
  tr_name :: "pystr option"
  tr_to_name :: "pystr option"

text \<open>
  \<open>T["jira"]["preferred_close_statuses"]\<close>: Done, Closed, Resolve, Resolved and four
  Russian labels; \<open>T["jira"]["no_transitions"]\<close>, the message of the empty case.
\<close>

definition preferred_close_statuses :: "pystr list" where
  "preferred_close_statuses =
     [asc ''Done'', asc ''Closed'', asc ''Resolve'', asc ''Resolved'',
      [1047, 1072, 1082, 1088, 1099, 1090, 1086],
      [1047, 1072, 1082, 1088, 1099, 1090, 1100],
      [1043, 1086, 1090, 1086, 1074, 1086],
      [1042, 1099, 1087, 1086, 1083, 1085, 1077, 1085, 1086]]"

definition no_transitions :: pystr where
  "no_transitions =
     [1053, 1077, 1090, 32, 1076, 1086, 1089, 1090, 1091, 1087, 1085, 1099, 1093, 32, 1087,
      1077, 1088, 1077, 1093, 1086, 1076, 1086, 1074, 32, 1076, 1083, 1103, 32, 1079, 1072,
      1082, 1088, 1099, 1090, 1080, 1103, 46]"

text \<open>
  \<open>close_issue_by_best_transition\<close> of \<open>regular_bot.py\<close>.  The two tracker calls are
  inputs of the model: \<open>fetch\<close> is what \<open>jira_get_transitions\<close> returned (the list or
  \<open>None\<close>, and the error text), \<open>do_transition\<close> gives the answer of
  \<open>jira_do_transition\<close> for a transition id.  The result is the returned error text and
  the list of transition ids posted to the tracker.

  \<open>best_loop\<close> is the \<open>for\<close> loop with its \<open>break\<close>: the value of \<open>best\<close> after it.
\<close>

fun best_loop :: "transition list \<Rightarrow> pystr option" where
  "best_loop [] = None"
| "best_loop (tr # trs) =
     (let name = strip (or_empty (tr_name tr));
          to = strip (or_empty (tr_to_name tr))
      in if name \<in> set preferred_close_statuses \<or> to \<in> set preferred_close_statuses
         then tr_id tr
         else best_loop trs)"

definition close_issue_by_best_transition ::
  "transition list option \<times> pystr option \<Rightarrow> (pystr \<Rightarrow> pystr option)
     \<Rightarrow> pystr option \<times> pystr list" where
  "close_issue_by_best_transition fetch do_transition =
     (case fetch of
        (None, err) \<Rightarrow> (if truthy err then err else Some (asc ''no transitions''), [])
      | (Some transitions, err) \<Rightarrow>
          (let best = best_loop transitions;
               best = (if \<not> truthy best \<and> transitions \<noteq> []
                       then tr_id (last transitions) else best)
           in if \<not> truthy best then (Some no_transitions, [])
              else (do_transition (or_empty best), [or_empty best])))"

text \<open>
  \<open>jira_close_issue\<close> of \<open>jira_client.py\<close>; its \<open>jira_get_transitions\<close> returns a list
  in every case, and the error text decides.
\<close>

fun client_best_loop :: "transition list \<Rightarrow> pystr option" where
  "client_best_loop [] = None"
| "client_best_loop (tr # trs) =
     (let name = strip (or_empty (tr_name tr));
          to_name = strip (or_empty (tr_to_name tr))
      in if name \<in> set preferred_close_statuses \<or> to_name \<in> set preferred_close_statuses
         then tr_id tr
         else client_best_loop trs)"

definition jira_close_issue ::
  "transition list \<times> pystr option \<Rightarrow> (pystr \<Rightarrow> pystr option)
     \<Rightarrow> pystr option \<times> pystr list" where
  "jira_close_issue fetch do_transition =
     (case fetch of
        (transitions, err) \<Rightarrow>
          if truthy err then (err, [])
          else (let best = client_best_loop transitions;
                    best = (if \<not> truthy best \<and> transitions \<noteq> []
                            then tr_id (last transitions) else best)
                in if \<not> truthy best then (Some no_transitions, [])
                   else (do_transition (or_empty best), [or_empty best])))"

text \<open>
  The close policy in the words of the specification: a transition matches when its name
  or its target-status name is one of the labels; the first match in listed order is
  selected, the last listed transition when nothing matches, nothing for the empty list.
\<close>

definition matches_label :: "transition \<Rightarrow> bool" where
  "matches_label tr \<longleftrightarrow>
     strip (or_empty (tr_name tr)) \<in> set preferred_close_statuses
     \<or> strip (or_empty (tr_to_name tr)) \<in> set preferred_close_statuses"

definition selected_by_policy :: "transition list \<Rightarrow> transition option" where
  "selected_by_policy trs =
     (case find matches_label trs of
        Some tr \<Rightarrow> Some tr
      | None \<Rightarrow> (if trs = [] then None else Some (last trs)))"

section \<open>Plate validation\<close>

text \<open>
  The functions below consult Python's Unicode tables: \<open>str.upper\<close> (the upper-case
  mapping of one code point, which may be several code points), \<open>str.isalnum\<close>, and the
  class \<open>\d\<close> of the \<open>re\<close> module (the decimal digits of every script).  The tables
  are not part of the repository, so the model takes them as a parameter.
\<close>

record unicode_db =
  py_upper :: "nat \<Rightarrow> pystr"
  py_isalnum :: "nat \<Rightarrow> bool"
  re_digit :: "nat \<Rightarrow> bool"

text \<open>\<open>SERIES_CYR\<close>, the twelve Cyrillic capitals of a plate series.\<close>

definition SERIES_CYR :: pystr where
  "SERIES_CYR = [1040, 1042, 1045, 1050, 1052, 1053, 1054, 1056, 1057, 1058, 1059, 1061]"

text \<open>
  \<open>LAT_TO_CYR\<close>: the Latin capitals A B E K M H O P C T Y X and the Cyrillic letters
  they look like.
\<close>

definition LAT_TO_CYR :: "(nat \<times> nat) list" where
  "LAT_TO_CYR =
     [(65, 1040), (66, 1042), (69, 1045), (75, 1050), (77, 1052), (72, 1053),
      (79, 1054), (80, 1056), (67, 1057), (84, 1058), (89, 1059), (88, 1061)]"

definition translate :: "pystr \<Rightarrow> pystr" where
  "translate s = map (\<lambda>c. case map_of LAT_TO_CYR c of Some c' \<Rightarrow> c' | None \<Rightarrow> c) s"

definition upper :: "unicode_db \<Rightarrow> pystr \<Rightarrow> pystr" where
  "upper db s = concat (map (py_upper db) s)"

text \<open>
  The expression \<open>"".join(ch for ch in text.upper() if ch.isalnum()).translate(LAT_TO_CYR)\<close>
  shared by both normalizers.
\<close>

definition compact_form :: "unicode_db \<Rightarrow> pystr \<Rightarrow> pystr" where
  "compact_form db text = translate (filter (py_isalnum db) (upper db text))"

text \<open>
  The regular expressions.  \<open>$\<close> matches at the end of the string and before a final
  newline.  A bounded repetition \<open>\d{m,n}\<close> is greedy: the matcher tries the longest
  count first and falls back to the shorter ones, which is the order of the count lists
  below.  A successful match yields the groups.
\<close>

definition re_end :: "pystr \<Rightarrow> bool" where
  "re_end r \<longleftrightarrow> r = [] \<or> r = [10]"

definition digits :: "unicode_db \<Rightarrow> pystr \<Rightarrow> bool" where
  "digits db s \<longleftrightarrow> list_all (re_digit db) s"

definition series :: "pystr \<Rightarrow> bool" where
  "series s \<longleftrightarrow> list_all (\<lambda>c. c \<in> set SERIES_CYR) s"

fun match_region :: "unicode_db \<Rightarrow> nat list \<Rightarrow> pystr \<Rightarrow> pystr option" where
  "match_region db [] r = None"
| "match_region db (k # ks) r =
     (if k \<le> length r \<and> digits db (take k r) \<and> re_end (drop k r)
      then Some (take k r)
      else match_region db ks r)"

fun match_digits ::
  "unicode_db \<Rightarrow> nat list \<Rightarrow> pystr \<Rightarrow> (pystr \<times> pystr \<times> pystr) option" where
  "match_digits db [] r = None"
| "match_digits db (n # ns) r =
     (if n \<le> length r \<and> digits db (take n r)
         \<and> 2 \<le> length (drop n r) \<and> series (take 2 (drop n r))
      then (case match_region db [3, 2] (drop 2 (drop n r)) of
              Some reg \<Rightarrow> Some (take n r, take 2 (drop n r), reg)
            | None \<Rightarrow> match_digits db ns r)
      else match_digits db ns r)"

definition match_plate ::
  "unicode_db \<Rightarrow> nat list \<Rightarrow> pystr \<Rightarrow> (pystr \<times> pystr \<times> pystr \<times> pystr) option" where
  "match_plate db ns s =
     (case s of
        [] \<Rightarrow> None
      | c # r \<Rightarrow>
          if c \<in> set SERIES_CYR
          then (case match_digits db ns r of
                  Some (d, l2, reg) \<Rightarrow> Some ([c], d, l2, reg)
                | None \<Rightarrow> None)
          else None)"

text \<open>\<open>PLATE_RE_34\<close> and \<open>PLATE_RE_3\<close>.\<close>

definition PLATE_RE_34 ::
  "unicode_db \<Rightarrow> pystr \<Rightarrow> (pystr \<times> pystr \<times> pystr \<times> pystr) option" where
  "PLATE_RE_34 db s = match_plate db [4, 3] s"

definition PLATE_RE_3 ::
  "unicode_db \<Rightarrow> pystr \<Rightarrow> (pystr \<times> pystr \<times> pystr \<times> pystr) option" where
  "PLATE_RE_3 db s = match_plate db [3] s"

text \<open>\<open>REF_COMPACT_RE\<close>: two series letters, four digits, a region of two or three digits.\<close>

definition REF_COMPACT_RE :: "unicode_db \<Rightarrow> pystr \<Rightarrow> (pystr \<times> pystr \<times> pystr) option" where
  "REF_COMPACT_RE db s =
     (if 2 \<le> length s \<and> series (take 2 s)
         \<and> 4 \<le> length (drop 2 s) \<and> digits db (take 4 (drop 2 s))
      then (case match_region db [3, 2] (drop 4 (drop 2 s)) of
              Some reg \<Rightarrow> Some (take 2 s, take 4 (drop 2 s), reg)
            | None \<Rightarrow> None)
      else None)"

definition normalize_vats_plate :: "unicode_db \<Rightarrow> pystr \<Rightarrow> pystr option \<Rightarrow> pystr option" where
  "normalize_vats_plate db text brnd =
     (if text = [] then None
      else (let s = compact_form db text;
                m = (if brnd = Some (asc ''KIA_CEED'') then PLATE_RE_3 db s
                     else PLATE_RE_34 db s)
            in case m of
                 None \<Rightarrow> None
               | Some (l1, d, l2, reg) \<Rightarrow> Some (l1 @ d @ l2 @ reg)))"

definition normalize_ref_plate :: "unicode_db \<Rightarrow> pystr \<Rightarrow> pystr option" where
  "normalize_ref_plate db text =
     (if text = [] then None
      else (case REF_COMPACT_RE db (compact_form db text) of
              None \<Rightarrow> None
            | Some (letters2, d4, reg) \<Rightarrow> Some (letters2 @ d4 @ reg)))"

text \<open>\<open>T["common"]["empty"]\<close>, the em dash shown for an unset value.\<close>

definition EMPTY :: pystr where
  "EMPTY = [8212]"

definition format_vats_display :: "unicode_db \<Rightarrow> pystr option \<Rightarrow> pystr" where
  "format_vats_display db compact =
     (if \<not> truthy compact then EMPTY
      else (let c = or_empty compact;
                m = (case PLATE_RE_34 db c of Some g \<Rightarrow> Some g | None \<Rightarrow> PLATE_RE_3 db c)
            in case m of
                 None \<Rightarrow> c
               | Some (l1, d, l2, reg) \<Rightarrow> l1 @ d @ l2 @ [32] @ reg))"

definition format_ref_display :: "unicode_db \<Rightarrow> pystr option \<Rightarrow> pystr" where
  "format_ref_display db compact =
     (if \<not> truthy compact then EMPTY
      else (let c = or_empty compact
            in case REF_COMPACT_RE db c of
                 None \<Rightarrow> c
               | Some (letters2, d4, reg) \<Rightarrow> letters2 @ d4 @ [32] @ reg))"

text \<open>
  The accepted pattern in the words of the specification: one series letter, a block of
  \<open>n\<close> digits, two series letters and a region code of \<open>k\<close> digits, where \<open>n\<close> is 3
  for the brand KIA_CEED and 3 or 4 otherwise, and \<open>k\<close> is 2 or 3.
\<close>

definition plate_shape :: "unicode_db \<Rightarrow> nat \<Rightarrow> nat \<Rightarrow> pystr \<Rightarrow> bool" where
  "plate_shape db n k s \<longleftrightarrow>
     length s = 1 + n + 2 + k
     \<and> series (take 1 s)
     \<and> digits db (take n (drop 1 s))
     \<and> series (take 2 (drop n (drop 1 s)))
     \<and> digits db (drop 2 (drop n (drop 1 s)))"

definition digit_counts :: "pystr option \<Rightarrow> nat list" where
  "digit_counts brnd = (if brnd = Some (asc ''KIA_CEED'') then [3] else [3, 4])"

definition plate_pattern :: "unicode_db \<Rightarrow> pystr option \<Rightarrow> pystr \<Rightarrow> bool" where
  "plate_pattern db brnd s \<longleftrightarrow>
     list_ex (\<lambda>n. list_ex (\<lambda>k. plate_shape db n k s) [2, 3]) (digit_counts brnd)"

text \<open>
  Two facts of the Unicode tables that the statements below rely on: the newline is not
  alphanumeric, and no letter of the series alphabet is a decimal digit.
\<close>

definition unicode_facts :: "unicode_db \<Rightarrow> bool" where
  "unicode_facts db \<longleftrightarrow>
     \<not> py_isalnum db 10 \<and> list_all (\<lambda>c. \<not> re_digit db c) SERIES_CYR"

text \<open>
  A fragment of the Unicode tables for concrete examples: the ASCII letters and digits and
  the basic Russian alphabet.
\<close>

definition sample_db :: unicode_db where
  "sample_db =
     \<lparr> py_upper = (\<lambda>c. if (97 \<le> c \<and> c \<le> 122) \<or> (1072 \<le> c \<and> c \<le> 1103) then [c - 32]
                       else [c]),
       py_isalnum = (\<lambda>c. (48 \<le> c \<and> c \<le> 57) \<or> (65 \<le> c \<and> c \<le> 90) \<or> (97 \<le> c \<and> c \<le> 122)
                          \<or> (1040 \<le> c \<and> c \<le> 1103)),
       re_digit = (\<lambda>c. 48 \<le> c \<and> c \<le> 57) \<rparr>"

section \<open>The draft and its navigation\<close>

text \<open>
  The per-session dictionary \<open>draft\<close>: the ticket (absent before the first
  \<open>/start\<close>), the cursor \<open>step_idx\<close>, the flag \<open>editing\<close>, the mode and the flag
  \<open>_incident_source_custom_input\<close>.  A missing key reads as its default (\<open>0\<close>,
  \<open>False\<close>, \<open>"primary"\<close>), which is the value of the field in \<open>empty_draft\<close>.
\<close>

datatype mode = PRIMARY_MODE | RA_MODE

record draft =
  ticket :: "ticket option"
  step_idx :: int
  editing :: bool
  mode :: mode
  incident_source_custom_input :: bool

definition empty_draft :: draft where
  "empty_draft = \<lparr> ticket = None, step_idx = 0, editing = False, mode = PRIMARY_MODE,
                     incident_source_custom_input = False \<rparr>"

definition active_steps :: "draft \<Rightarrow> pystr list" where
  "active_steps d =
     (case mode d of
        PRIMARY_MODE \<Rightarrow> steps_for_primary (ticket d)
      | RA_MODE \<Rightarrow> steps_for_ra (ticket d))"

text \<open>
  \<open>current_step_key\<close> clamps the cursor, stores it back into the draft and returns the
  key at the cursor; \<open>clamp_step_idx\<close> is the draft after that store.
\<close>

definition clamp_step_idx :: "draft \<Rightarrow> draft" where
  "clamp_step_idx d =
     (let steps = active_steps d;
          idx = step_idx d;
          idx = max 0 (if idx \<ge> int (length steps) then int (length steps) - 1 else idx)
      in d\<lparr>step_idx := idx\<rparr>)"

definition current_step_key :: "draft \<Rightarrow> pystr" where
  "current_step_key d = active_steps d ! nat (step_idx (clamp_step_idx d))"

definition set_step_idx :: "draft \<Rightarrow> int \<Rightarrow> draft" where
  "set_step_idx d idx = d\<lparr>step_idx := max 0 (min idx (int (length (active_steps d)) - 1))\<rparr>"

definition goto_next_step :: "draft \<Rightarrow> draft" where
  "goto_next_step d = d\<lparr>step_idx := min (step_idx d + 1) (int (length (active_steps d)) - 1)\<rparr>"

definition goto_prev_step :: "draft \<Rightarrow> draft" where
  "goto_prev_step d = d\<lparr>step_idx := max (step_idx d - 1) 0\<rparr>"

definition is_last_step :: "draft \<Rightarrow> bool" where
  "is_last_step d \<longleftrightarrow> step_idx d \<ge> int (length (active_steps d)) - 1"

text \<open>\<open>ALL_KNOWN_KEYS\<close> and \<open>STEP_INPUT_KIND\<close>.\<close>

definition ALL_KNOWN_KEYS :: "pystr list" where
  "ALL_KNOWN_KEYS =
     [asc ''incident_type'', asc ''incident_source'', asc ''dtp_type'', asc ''incident_time'',
      asc ''brand'', asc ''plate_vats'', asc ''plate_ref'', asc ''dtp_vehicles'',
      asc ''location'', asc ''dtp_damage_text'', asc ''obstacle_on_road'',
      asc ''break_symptoms'', asc ''problem_desc'', asc ''notes'',
      asc ''ra_need_dtp_formalization'', asc ''ra_need_diagnosis'', asc ''ra_need_repair'',
      asc ''ra_need_evacuation'', asc ''ra_called_112'']"

definition STEP_INPUT_KIND :: "pystr \<Rightarrow> pystr option" where
  "STEP_INPUT_KIND =
     map_of
       [(asc ''incident_type'', asc ''choice''), (asc ''incident_source'', asc ''choice''),
        (asc ''dtp_type'', asc ''choice''), (asc ''brand'', asc ''choice''),
        (asc ''plate_vats'', asc ''plate''), (asc ''plate_ref'', asc ''plate_ref''),
        (asc ''dtp_vehicles'', asc ''counter''), (asc ''location'', asc ''text''),
        (asc ''dtp_damage_text'', asc ''text''), (asc ''obstacle_on_road'', asc ''choice''),
        (asc ''break_symptoms'', asc ''text''), (asc ''problem_desc'', asc ''text''),
        (asc ''notes'', asc ''text''),
        (asc ''ra_need_dtp_formalization'', asc ''choice''),
        (asc ''ra_need_diagnosis'', asc ''choice''), (asc ''ra_need_repair'', asc ''choice''),
        (asc ''ra_need_evacuation'', asc ''choice''), (asc ''ra_called_112'', asc ''choice'')]"

definition INCIDENT_SOURCE_CUSTOM_VALUE :: pystr where
  "INCIDENT_SOURCE_CUSTOM_VALUE = asc ''__CUSTOM_INCIDENT_SOURCE__''"

section \<open>Storing a field\<close>

text \<open>
  \<open>setattr(ticket, key, val)\<close> with \<open>val\<close> a string or \<open>None\<close>.  The model follows
  the store as long as the ticket remains a value of the dataclass as declared.  It
  answers \<open>None\<close> for a store that leaves the declared type: a name the dataclass does
  not declare, \<open>None\<close> in an attribute declared \<open>str\<close>, a string in an attribute
  declared \<open>int\<close>.  No keyboard of the bot carries such a key.  \<open>str_attributes\<close>
  lists the attributes declared \<open>Optional[str]\<close>, each with its store.
\<close>

definition str_attributes ::
  "(pystr \<times> ((pystr option \<Rightarrow> pystr option) \<Rightarrow> ticket \<Rightarrow> ticket)) list" where
  "str_attributes =
     [(asc ''username'', username_update),
      (asc ''incident_type'', incident_type_update),
      (asc ''incident_source'', incident_source_update),
      (asc ''dtp_type'', dtp_type_update),
      (asc ''incident_time'', incident_time_update),
      (asc ''brand'', brand_update),
      (asc ''plate_vats'', plate_vats_update),
      (asc ''plate_ref'', plate_ref_update),
      (asc ''location'', location_update),
      (asc ''dtp_damage_text'', dtp_damage_text_update),
      (asc ''obstacle_on_road'', obstacle_on_road_update),
      (asc ''break_symptoms'', break_symptoms_update),
      (asc ''problem_desc'', problem_desc_update),
      (asc ''notes'', notes_f_update),
      (asc ''jira_main'', jira_main_update),
      (asc ''ra_need_dtp_formalization'', ra_need_dtp_formalization_update),
      (asc ''ra_need_diagnosis'', ra_need_diagnosis_update),
      (asc ''ra_need_repair'', ra_need_repair_update),
      (asc ''ra_need_evacuation'', ra_need_evacuation_update),
      (asc ''ra_called_112'', ra_called_112_update)]"

definition setattr_ticket :: "ticket \<Rightarrow> pystr \<Rightarrow> pystr option \<Rightarrow> ticket option" where
  "setattr_ticket t key val =
     (case map_of str_attributes key of
        Some upd \<Rightarrow> Some (upd (\<lambda>old. val) t)
      | None \<Rightarrow>
          if key = asc ''id''
          then (case val of Some v \<Rightarrow> Some (t\<lparr>id_f := v\<rparr>) | None \<Rightarrow> None)
          else if key = asc ''created_at''
          then (case val of Some v \<Rightarrow> Some (t\<lparr>created_at := v\<rparr>) | None \<Rightarrow> None)
          else if key = asc ''ra_chat_id''
          then (case val of None \<Rightarrow> Some (t\<lparr>ra_chat_id := None\<rparr>) | Some v \<Rightarrow> None)
          else None)"

text \<open>
  \<open>set_field_local\<close>: \<open>None\<close> in \<open>dtp_vehicles\<close> is the empty dictionary; a string
  there leaves the declared type.
\<close>

definition set_field_local :: "ticket \<Rightarrow> pystr \<Rightarrow> pystr option \<Rightarrow> ticket option" where
  "set_field_local t key val =
     (if key = asc ''dtp_vehicles''
      then (case val of None \<Rightarrow> Some (t\<lparr>dtp_vehicles := Map.empty\<rparr>) | Some v \<Rightarrow> None)
      else setattr_ticket t key val)"

section \<open>Messages, keyboards and effects\<close>

text \<open>
  What a handler sends is recorded symbolically: which text of \<open>TEXTS\<close> or which
  rendering of which ticket snapshot, and which keyboard.  \<open>KbNav key back skip\<close> is
  \<open>kb_nav\<close> with the resolved flags (\<open>NO_SKIP_FIELDS\<close> is empty, so an unspecified
  \<open>skip\<close> shows the button).
\<close>

datatype message =
    Question pystr
  | VehStepText "pystr \<rightharpoonup> int"
  | PreviewBlock ticket
  | AfterMain ticket
  | AfterRa ticket
  | FormEditTitle
  | NeedMainBeforeRa
  | NeedMainIssue
  | CreatingIssue
  | ClosingIssue
  | IssueClosed
  | IncidentSourceOtherPrompt
  | PlateInvalid
  | PlateRefInvalid
  | EmptyText
  | DispatchMissingChat
  | DispatchSent
  | DispatchHelp
  | HelpNeeded
  | DelayNotice ticket
  | RaNotice ticket
  | JiraCreateFailed
  | Warning pystr
  | Escaped pystr

datatype keyboard =
    KbNone
  | KbChoice pystr
  | KbNav pystr bool bool
  | KbVehCounter "pystr \<rightharpoonup> int"
  | KbSummary
  | KbAfterMain
  | KbAfterRa "int option" "pystr option"
  | KbEditFieldList "pystr list"
  | KbOpenChat pystr

datatype error = ValueError

text \<open>
  The calls a handler makes, in order.  The first two are the messaging transport; the
  others reach the tracker, the chat factory or a chat other than the requester's.
  \<open>Raised\<close> ends the list when the handler stops with an exception.
\<close>

datatype effect =
    AnswerQuery
  | SendMessage message keyboard
  | EditMessage message keyboard
  | JiraCreate ticket
  | JiraGetTransitions pystr
  | JiraDoTransition pystr pystr
  | CreateChat pystr
  | CreateInviteLink int
  | SetChatTitle int
  | PostToChat int message
  | NotifyChat int message keyboard
  | LockChat int
  | RemoveDispatchButton
  | Raised error

text \<open>
  The surroundings of one handler call: the Unicode tables, the update (private chat or
  not, the user), what \<open>short_id\<close> and the clock return, the configured chat ids, and the
  answers of the external collaborators (\<open>invite_link_result\<close> is the text of the
  \<open>TelegramError\<close> or the link).  The transport calls are assumed to succeed.
\<close>

record env =
  unicode :: unicode_db
  chat_private :: bool
  user :: "(int \<times> pystr option) option"
  new_id :: pystr
  now_iso :: pystr
  now_text :: pystr
  RA_NOTIFY_CHAT_ID :: int
  DISPATCH_ALERT_CHAT_ID :: int
  jira_create_result :: "pystr option \<times> pystr option"
  jira_transitions :: "transition list option \<times> pystr option"
  jira_do_transition :: "pystr \<Rightarrow> pystr option"
  create_chat_result :: "pystr option \<times> pystr option \<times> int option"
  invite_link_result :: "pystr + pystr"


section \<open>Handlers\<close>

text \<open>\<open>s.split("|")\<close>, \<open>s.split("|", n)\<close> and \<open>s.startswith(p)\<close>.\<close>

fun split_bar :: "pystr \<Rightarrow> pystr list" where
  "split_bar [] = [[]]"
| "split_bar (c # cs) =
     (if c = 124 then [] # split_bar cs
      else (c # hd (split_bar cs)) # tl (split_bar cs))"

fun split_bar_max :: "nat \<Rightarrow> pystr \<Rightarrow> pystr list" where
  "split_bar_max 0 s = [s]"
| "split_bar_max (Suc n) [] = [[]]"
| "split_bar_max (Suc n) (c # cs) =
     (if c = 124 then [] # split_bar_max n cs
      else (c # hd (split_bar_max (Suc n) cs)) # tl (split_bar_max (Suc n) cs))"

definition startswith :: "pystr \<Rightarrow> pystr \<Rightarrow> bool" where
  "startswith s p \<longleftrightarrow> take (length p) s = p"

text \<open>
  The text and the keyboard with which a step is asked: the question and the choice
  keyboard for a choice step, the counter text and keyboard for the counter step, the
  question and the navigation keyboard otherwise.
\<close>

definition prompt_for :: "ticket \<Rightarrow> pystr \<Rightarrow> message \<times> keyboard" where
  "prompt_for t key =
     (if STEP_INPUT_KIND key \<noteq> Some (asc ''counter'') then Question key
      else VehStepText (dtp_vehicles t),
      if STEP_INPUT_KIND key = Some (asc ''choice'') then KbChoice key
      else if STEP_INPUT_KIND key = Some (asc ''counter'') then KbVehCounter (dtp_vehicles t)
      else KbNav key True True)"

definition edit_prompt :: "ticket \<Rightarrow> pystr \<Rightarrow> effect" where
  "edit_prompt t key = EditMessage (fst (prompt_for t key)) (snd (prompt_for t key))"

definition send_prompt :: "ticket \<Rightarrow> pystr \<Rightarrow> effect" where
  "send_prompt t key = SendMessage (fst (prompt_for t key)) (snd (prompt_for t key))"

definition start_new_draft :: "env \<Rightarrow> draft \<Rightarrow> draft" where
  "start_new_draft e d =
     d\<lparr>incident_source_custom_input := False,
       ticket := Some (blank_ticket
          \<lparr>id_f := new_id e,
           user_id := (case user e of Some (i, n) \<Rightarrow> i | None \<Rightarrow> 0),
           username := (case user e of Some (i, n) \<Rightarrow> n | None \<Rightarrow> None),
           created_at := now_iso e,
           incident_time := Some (now_text e)\<rparr>),
       step_idx := 0, editing := False, mode := PRIMARY_MODE\<rparr>"

definition cmd_start :: "env \<Rightarrow> draft \<Rightarrow> draft \<times> effect list" where
  "cmd_start e d =
     (if \<not> chat_private e then (d, [])
      else (start_new_draft e d,
            [SendMessage (Question (asc ''incident_type'')) (KbChoice (asc ''incident_type''))]))"

text \<open>
  \<open>goto_next_step\<close> followed by \<open>current_step_key\<close> and the prompt for the key found,
  the common tail of the handlers.
\<close>

definition ask_next :: "(ticket \<Rightarrow> pystr \<Rightarrow> effect) \<Rightarrow> draft \<Rightarrow> ticket \<Rightarrow> draft \<times> effect list" where
  "ask_next ask d t =
     (let d1 = goto_next_step d
      in (clamp_step_idx d1, [ask t (current_step_key d1)]))"

text \<open>
  \<open>finish_ra_flow_if_needed\<close>; \<open>None\<close> is its answer \<open>False\<close>.  The ticket \<open>t\<close> is the
  one the draft holds.
\<close>

definition finish_ra_flow_if_needed ::
  "env \<Rightarrow> draft \<Rightarrow> ticket \<Rightarrow> (draft \<times> effect list) option" where
  "finish_ra_flow_if_needed e d t =
     (if mode d \<noteq> RA_MODE \<or> \<not> is_last_step d then None
      else
        (let chat_id = snd (snd (create_chat_result e));
             created = (case chat_id of Some c \<Rightarrow> c \<noteq> 0 | None \<Rightarrow> False);
             t' = (if created then t\<lparr>ra_chat_id := chat_id\<rparr> else t);
             c = (case chat_id of Some c \<Rightarrow> c | None \<Rightarrow> 0);
             invite_link = (if created
                            then (case invite_link_result e of Inr l \<Rightarrow> Some l | Inl x \<Rightarrow> None)
                            else None)
         in Some (d\<lparr>mode := PRIMARY_MODE, step_idx := 0, ticket := Some t'\<rparr>,
                  [CreateChat (id_f t)]
                  @ (if created
                     then [CreateInviteLink c, SetChatTitle c, PostToChat c (AfterRa t')]
                     else [])
                  @ (if RA_NOTIFY_CHAT_ID e \<noteq> 0
                     then [NotifyChat (RA_NOTIFY_CHAT_ID e) HelpNeeded
                             (if truthy invite_link then KbOpenChat (or_empty invite_link)
                              else KbNone)]
                     else [])
                  @ [EditMessage (AfterRa t') (KbAfterRa (ra_chat_id t') invite_link)]
                  @ (if DISPATCH_ALERT_CHAT_ID e \<noteq> 0
                     then [NotifyChat (DISPATCH_ALERT_CHAT_ID e) (RaNotice t') KbNone]
                     else []))))"

subsection \<open>The counter buttons\<close>

text \<open>\<open>ticket.dtp_vehicles.get(kind, 0)\<close>.\<close>

definition veh_get :: "ticket \<Rightarrow> pystr \<Rightarrow> int" where
  "veh_get t kind = (case dtp_vehicles t kind of Some n \<Rightarrow> n | None \<Rightarrow> 0)"

definition cb_veh :: "draft \<Rightarrow> ticket \<Rightarrow> pystr \<Rightarrow> (draft \<times> effect list) option" where
  "cb_veh d t data =
     (let parts = take 3 (split_bar data @ [[], []]);
          action = parts ! 1;
          kind = parts ! 2
      in if action = asc ''plus'' \<or> action = asc ''minus''
         then (let cur = veh_get t kind;
                   v = (dtp_vehicles t)
                         (kind \<mapsto> max 0 (cur + (if action = asc ''plus'' then 1 else - 1)))
               in Some (d\<lparr>ticket := Some (t\<lparr>dtp_vehicles := v\<rparr>)\<rparr>,
                        [EditMessage (VehStepText v) (KbVehCounter v)]))
         else if action = asc ''done''
         then (if editing d \<and> mode d = PRIMARY_MODE
               then Some (d\<lparr>editing := False\<rparr>, [EditMessage (PreviewBlock t) KbSummary])
               else if is_last_step d \<and> mode d = PRIMARY_MODE
               then Some (d, [EditMessage (PreviewBlock t) KbSummary])
               else Some (ask_next edit_prompt d t))
         else Some (d, []))"

subsection \<open>Back and skip\<close>

definition nav_back :: "draft \<Rightarrow> ticket \<Rightarrow> pystr \<Rightarrow> (draft \<times> effect list) option" where
  "nav_back d t cur_key =
     (if editing d \<and> mode d = PRIMARY_MODE
      then Some (d\<lparr>editing := False\<rparr>, [EditMessage (PreviewBlock t) KbSummary])
      else
        (let d1 = (if cur_key = asc ''incident_source''
                   then d\<lparr>incident_source_custom_input := False\<rparr> else d);
             steps = active_steps d1;
             d2 = (if cur_key \<in> set steps
                   then set_step_idx d1 (max 0 (int (index_of cur_key steps) - 1))
                   else goto_prev_step d1)
         in Some (clamp_step_idx d2, [edit_prompt t (current_step_key d2)])))"

definition nav_skip :: "env \<Rightarrow> draft \<Rightarrow> ticket \<Rightarrow> pystr \<Rightarrow> (draft \<times> effect list) option" where
  "nav_skip e d t cur_key =
     (case (if cur_key = asc ''dtp_vehicles'' then Some (t\<lparr>dtp_vehicles := Map.empty\<rparr>)
            else set_field_local t cur_key None) of
        None \<Rightarrow> None
      | Some t1 \<Rightarrow>
          (let d1 = d\<lparr>ticket := Some t1\<rparr>;
               d2 = (if cur_key = asc ''incident_source''
                     then d1\<lparr>incident_source_custom_input := False\<rparr> else d1)
           in case finish_ra_flow_if_needed e d2 t1 of
                Some r \<Rightarrow> Some r
              | None \<Rightarrow>
                  if editing d2 \<or> is_last_step d2
                  then Some (d2, [EditMessage (PreviewBlock t1) KbSummary])
                  else Some (ask_next edit_prompt d2 t1)))"

definition cb_nav :: "env \<Rightarrow> draft \<Rightarrow> ticket \<Rightarrow> pystr \<Rightarrow> (draft \<times> effect list) option" where
  "cb_nav e d t data =
     (let parts = split_bar data;
          action = (if length parts > 1 then parts ! 1 else []);
          cur_key = (if length parts > 2 then parts ! 2 else current_step_key d);
          d0 = (if length parts > 2 then d else clamp_step_idx d)
      in if action = asc ''back'' then nav_back d0 t cur_key
         else if action = asc ''skip'' then nav_skip e d0 t cur_key
         else Some (d0, []))"

subsection \<open>Setting an enumerated field\<close>

text \<open>
  The tail of the \<open>set|\<close> branch once no brand change and no forced jump applies: the
  cursor check for \<open>incident_type\<close> and \<open>brand\<close>, then preview, secondary completion
  or the next step.
\<close>

definition set_advance ::
  "env \<Rightarrow> draft \<Rightarrow> ticket \<Rightarrow> pystr \<Rightarrow> (draft \<times> effect list) option" where
  "set_advance e d t field_key =
     (let d1 = (if field_key = asc ''incident_type'' \<or> field_key = asc ''brand''
                then (if current_step_key d \<notin> set (active_steps d)
                      then set_step_idx (clamp_step_idx d) 0
                      else clamp_step_idx d)
                else d);
          was_current = (current_step_key d1 = field_key);
          d2 = clamp_step_idx d1;
          was_last = (was_current \<and> is_last_step d2)
      in if editing d2 \<and> mode d2 = PRIMARY_MODE
         then Some (d2\<lparr>editing := False\<rparr>, [EditMessage (PreviewBlock t) KbSummary])
         else if was_last \<and> mode d2 = PRIMARY_MODE
         then Some (d2, [EditMessage (PreviewBlock t) KbSummary])
         else (case (if was_last \<and> mode d2 = RA_MODE then finish_ra_flow_if_needed e d2 t
                     else None) of
                 Some r \<Rightarrow> Some r
               | None \<Rightarrow>
                   (let d3 = (if was_current then goto_next_step d2 else d2)
                    in Some (clamp_step_idx d3, [edit_prompt t (current_step_key d3)]))))"

text \<open>
  The \<open>set|\<close> branch after the field is stored: \<open>t1\<close> is the ticket with the new value,
  \<open>prev_brand\<close> the brand before the store (\<open>None\<close> when another field is set).
\<close>

definition set_after ::
  "env \<Rightarrow> draft \<Rightarrow> ticket \<Rightarrow> pystr \<Rightarrow> pystr \<Rightarrow> pystr option
     \<Rightarrow> (draft \<times> effect list) option" where
  "set_after e d t1 field_key val prev_brand =
     (let brand_changed =
            (field_key = asc ''brand'' \<and> prev_brand \<noteq> None \<and> prev_brand \<noteq> Some val);
          t2 = (if brand_changed then t1\<lparr>plate_vats := None, plate_ref := None\<rparr> else t1);
          d1 = d\<lparr>ticket := Some t2\<rparr>
      in if \<not> brand_changed \<and> editing d1 \<and> mode d1 = PRIMARY_MODE
            \<and> field_key = asc ''brand'' \<and> val = asc ''SITRAK'' \<and> \<not> truthy (plate_ref t2)
            \<and> asc ''plate_ref'' \<in> set (active_steps d1)
         then Some (set_step_idx d1 (int (index_of (asc ''plate_ref'') (active_steps d1))),
                    [EditMessage (Question (asc ''plate_ref''))
                       (KbNav (asc ''plate_ref'') True False)])
         else if brand_changed
         then (if asc ''plate_vats'' \<in> set (active_steps d1)
               then Some (set_step_idx d1
                            (int (index_of (asc ''plate_vats'') (active_steps d1))),
                          [EditMessage (Question (asc ''plate_vats''))
                             (KbNav (asc ''plate_vats'') True True)])
               else Some (d1, []))
         else set_advance e d1 t2 field_key)"

definition cb_set :: "env \<Rightarrow> draft \<Rightarrow> ticket \<Rightarrow> pystr \<Rightarrow> (draft \<times> effect list) option" where
  "cb_set e d t data =
     (let parts = split_bar_max 2 data
      in if length parts \<noteq> 3 then Some (d, [Raised ValueError])
         else
           (let field_key = parts ! 1;
                val = parts ! 2
            in if field_key \<notin> set ALL_KNOWN_KEYS then Some (d, [])
               else if field_key = asc ''incident_source'' \<and> val = INCIDENT_SOURCE_CUSTOM_VALUE
               then Some (d\<lparr>incident_source_custom_input := True\<rparr>,
                          [EditMessage IncidentSourceOtherPrompt (KbNav field_key True True)])
               else
                 (let d0 = (if field_key = asc ''incident_source''
                            then d\<lparr>incident_source_custom_input := False\<rparr> else d);
                      prev_brand = (if field_key = asc ''brand'' then brand t else None)
                  in case set_field_local t field_key (Some val) of
                       None \<Rightarrow> None
                     | Some t1 \<Rightarrow> set_after e d0 t1 field_key val prev_brand)))"

subsection \<open>The summary, editing, the dispatcher, creation and the post-creation actions\<close>

definition cb_edit_field :: "draft \<Rightarrow> ticket \<Rightarrow> pystr \<Rightarrow> (draft \<times> effect list) option" where
  "cb_edit_field d t data =
     (let field_key = split_bar_max 2 data ! 2
      in if field_key \<notin> set (active_steps d) then Some (d, [])
         else
           (let d1 = d\<lparr>editing := True, mode := PRIMARY_MODE\<rparr>
            in if field_key \<in> set (active_steps d1)
               then Some (set_step_idx d1 (int (index_of field_key (active_steps d1))),
                          [edit_prompt t field_key])
               else Some (d1, [Raised ValueError])))"

definition int_truthy :: "int option \<Rightarrow> bool" where
  "int_truthy c = (case c of Some n \<Rightarrow> n \<noteq> 0 | None \<Rightarrow> False)"

definition int_or_zero :: "int option \<Rightarrow> int" where
  "int_or_zero c = (case c of Some n \<Rightarrow> n | None \<Rightarrow> 0)"

definition cb_dispatch :: "env \<Rightarrow> draft \<Rightarrow> ticket \<Rightarrow> pystr \<Rightarrow> (draft \<times> effect list) option" where
  "cb_dispatch e d t data =
     (let t_id = split_bar_max 1 data ! 1
      in if t_id \<noteq> id_f t then Some (d, [])
         else if DISPATCH_ALERT_CHAT_ID e = 0 \<or> \<not> int_truthy (ra_chat_id t)
         then Some (d, [EditMessage DispatchMissingChat KbNone])
         else (case invite_link_result e of
                 Inl x \<Rightarrow>
                   Some (d, [CreateInviteLink (int_or_zero (ra_chat_id t)),
                             EditMessage (Warning x) KbNone, RemoveDispatchButton])
               | Inr l \<Rightarrow>
                   Some (d, [CreateInviteLink (int_or_zero (ra_chat_id t)),
                             NotifyChat (DISPATCH_ALERT_CHAT_ID e) DispatchHelp (KbOpenChat l),
                             SendMessage DispatchSent KbNone, RemoveDispatchButton])))"

definition cb_create :: "env \<Rightarrow> draft \<Rightarrow> ticket \<Rightarrow> (draft \<times> effect list) option" where
  "cb_create e d t =
     (let jira_key = fst (jira_create_result e);
          jira_err = snd (jira_create_result e)
      in if truthy jira_key
         then (let t' = t\<lparr>jira_main := jira_key\<rparr>
               in Some (d\<lparr>ticket := Some t'\<rparr>,
                        [EditMessage CreatingIssue KbNone, JiraCreate t,
                         EditMessage (AfterMain t') KbAfterMain]
                        @ (if DISPATCH_ALERT_CHAT_ID e \<noteq> 0
                           then [NotifyChat (DISPATCH_ALERT_CHAT_ID e) (DelayNotice t') KbNone]
                           else [])))
         else Some (d, [EditMessage CreatingIssue KbNone, JiraCreate t,
                        EditMessage (if truthy jira_err then Warning (or_empty jira_err)
                                     else JiraCreateFailed) KbSummary]))"

definition act_ra :: "draft \<Rightarrow> ticket \<Rightarrow> (draft \<times> effect list) option" where
  "act_ra d t =
     (if \<not> truthy (jira_main t)
      then Some (d, [EditMessage NeedMainBeforeRa KbAfterMain])
      else (let d1 = d\<lparr>mode := RA_MODE, step_idx := 0\<rparr>
            in Some (clamp_step_idx d1,
                     [EditMessage (Question (current_step_key d1))
                        (KbChoice (current_step_key d1))])))"

definition act_close :: "env \<Rightarrow> draft \<Rightarrow> ticket \<Rightarrow> (draft \<times> effect list) option" where
  "act_close e d t =
     (if \<not> truthy (jira_main t)
      then Some (d, [EditMessage ClosingIssue KbNone, EditMessage NeedMainIssue KbNone])
      else
        (let r = close_issue_by_best_transition (jira_transitions e) (jira_do_transition e);
             err = fst r;
             issue_key = or_empty (jira_main t)
         in Some (d, [EditMessage ClosingIssue KbNone, JiraGetTransitions issue_key]
                     @ map (JiraDoTransition issue_key) (snd r)
                     @ (if truthy err then [EditMessage (Escaped (or_empty err)) KbNone]
                        else (if int_truthy (ra_chat_id t)
                              then [LockChat (int_or_zero (ra_chat_id t))] else [])
                             @ [EditMessage IssueClosed KbNone]))))"

definition cb_act :: "env \<Rightarrow> draft \<Rightarrow> ticket \<Rightarrow> pystr \<Rightarrow> (draft \<times> effect list) option" where
  "cb_act e d t data =
     (let parts = split_bar_max 2 data
      in if length parts \<noteq> 3 then Some (d, [Raised ValueError])
         else
           (let action = parts ! 1;
                t_id = parts ! 2
            in if t_id \<noteq> id_f t then Some (d, [])
               else if action = asc ''ra'' then act_ra d t
               else if action = asc ''close'' then act_close e d t
               else Some (d, [])))"

subsection \<open>The two entry points\<close>

text \<open>
  \<open>on_callback\<close> for a callback query with the data \<open>data\<close>.  The answer is the draft
  after the handler and the calls it made, or \<open>None\<close> when a store left the declared
  type of the ticket.  \<open>wrap\<close> puts \<open>query.answer()\<close> in front of what the branch does.
\<close>

definition wrap :: "(draft \<times> effect list) option \<Rightarrow> (draft \<times> effect list) option" where
  "wrap = map_option (\<lambda>r. (fst r, AnswerQuery # snd r))"

definition on_callback :: "env \<Rightarrow> draft \<Rightarrow> pystr \<Rightarrow> (draft \<times> effect list) option" where
  "on_callback e d data =
     (if \<not> chat_private e then Some (d, [])
      else
        (case ticket d of
           None \<Rightarrow> Some (fst (cmd_start e d), AnswerQuery # snd (cmd_start e d))
         | Some t \<Rightarrow>
             wrap
               (if startswith data (asc ''veh|'') then cb_veh d t data
                else if startswith data (asc ''nav|'') then cb_nav e d t data
                else if startswith data (asc ''set|'') then cb_set e d t data
                else if data = asc ''summary|edit''
                then Some (d, [EditMessage FormEditTitle (KbEditFieldList (active_steps d))])
                else if data = asc ''edit|cancel''
                then Some (d, [EditMessage (PreviewBlock t) KbSummary])
                else if startswith data (asc ''edit|field|'') then cb_edit_field d t data
                else if startswith data (asc ''dispatch|'') then cb_dispatch e d t data
                else if data = asc ''summary|create'' then cb_create e d t
                else if startswith data (asc ''act|'') then cb_act e d t data
                else Some (d, []))))"

text \<open>The common tail of \<open>on_text\<close> after the answer is stored.\<close>

definition text_advance :: "draft \<Rightarrow> ticket \<Rightarrow> (draft \<times> effect list) option" where
  "text_advance d t =
     (if editing d \<and> mode d = PRIMARY_MODE
      then Some (d\<lparr>editing := False\<rparr>, [SendMessage (PreviewBlock t) KbSummary])
      else if is_last_step d
      then (if mode d = PRIMARY_MODE
            then Some (d, [SendMessage (PreviewBlock t) KbSummary])
            else Some (d, []))
      else Some (ask_next send_prompt d t))"

text \<open>\<open>on_text\<close> for a message whose text (or \<open>""\<close>) is \<open>raw\<close>.\<close>

definition on_text :: "env \<Rightarrow> draft \<Rightarrow> pystr \<Rightarrow> (draft \<times> effect list) option" where
  "on_text e d raw =
     (if \<not> chat_private e then Some (d, [])
      else
        (case ticket d of
           None \<Rightarrow> Some (cmd_start e d)
         | Some t \<Rightarrow>
             (let key = current_step_key d;
                  d0 = clamp_step_idx d;
                  kind = STEP_INPUT_KIND key;
                  txt = strip raw;
                  custom_incident_source =
                    (key = asc ''incident_source'' \<and> incident_source_custom_input d0)
              in if kind = Some (asc ''plate'')
                 then (let norm = normalize_vats_plate (unicode e) txt (brand t)
                       in if \<not> truthy norm
                          then Some (d0, [SendMessage PlateInvalid (KbNav key True True)])
                          else (case set_field_local t key norm of
                                  None \<Rightarrow> None
                                | Some t1 \<Rightarrow>
                                    (let d1 = d0\<lparr>ticket := Some t1\<rparr>
                                     in if key = asc ''plate_vats'' \<and> editing d1
                                           \<and> mode d1 = PRIMARY_MODE
                                           \<and> brand t1 = Some (asc ''SITRAK'')
                                           \<and> \<not> truthy (plate_ref t1)
                                           \<and> asc ''plate_ref'' \<in> set (active_steps d1)
                                        then Some (set_step_idx d1
                                                 (int (index_of (asc ''plate_ref'')
                                                         (active_steps d1))),
                                               [SendMessage (Question (asc ''plate_ref''))
                                                  (KbNav (asc ''plate_ref'') True False)])
                                        else text_advance d1 t1)))
                 else if kind = Some (asc ''plate_ref'')
                 then (let norm = normalize_ref_plate (unicode e) txt
                       in if \<not> truthy norm
                          then Some (d0, [SendMessage PlateRefInvalid (KbNav key True True)])
                          else (case set_field_local t key norm of
                                  None \<Rightarrow> None
                                | Some t1 \<Rightarrow> text_advance (d0\<lparr>ticket := Some t1\<rparr>) t1))
                 else if kind = Some (asc ''text'') \<or> custom_incident_source
                 then (if txt = []
                       then Some (d0, [SendMessage EmptyText (KbNav key True True)])
                       else (case set_field_local t key (Some txt) of
                               None \<Rightarrow> None
                             | Some t1 \<Rightarrow>
                                 (let d1 = d0\<lparr>ticket := Some t1\<rparr>;
                                      d2 = (if custom_incident_source
                                            then d1\<lparr>incident_source_custom_input := False\<rparr>
                                            else d1)
                                  in text_advance d2 t1)))
                 else Some (d0, []))))"


text \<open>
  The calls that leave the conversation with the requester: the tracker, the chat
  factory and the other chats.
\<close>

fun is_gateway_call :: "effect \<Rightarrow> bool" where
  "is_gateway_call AnswerQuery = False"
| "is_gateway_call (SendMessage m k) = False"
| "is_gateway_call (EditMessage m k) = False"
| "is_gateway_call RemoveDispatchButton = False"
| "is_gateway_call (Raised x) = False"
| "is_gateway_call (JiraCreate t) = True"
| "is_gateway_call (JiraGetTransitions i) = True"
| "is_gateway_call (JiraDoTransition i j) = True"
| "is_gateway_call (CreateChat s) = True"
| "is_gateway_call (CreateInviteLink c) = True"
| "is_gateway_call (SetChatTitle c) = True"
| "is_gateway_call (PostToChat c m) = True"
| "is_gateway_call (NotifyChat c m k) = True"
| "is_gateway_call (LockChat c) = True"

section \<open>Sequences of actions\<close>

text \<open>
  One user action is a callback query or a text message, together with the surroundings
  in which it is handled.  \<open>handle\<close> dispatches to the entry point; \<open>run\<close> handles a
  list of actions in order and stops with \<open>None\<close> when a step does.
\<close>

datatype action = Callback env pystr | Text env pystr

fun handle :: "draft \<Rightarrow> action \<Rightarrow> (draft \<times> effect list) option" where
  "handle d (Callback e data) = on_callback e d data"
| "handle d (Text e raw) = on_text e d raw"

fun run :: "draft \<Rightarrow> action list \<Rightarrow> draft option" where
  "run d [] = Some d"
| "run d (a # as) = (case handle d a of None \<Rightarrow> None | Some r \<Rightarrow> run (fst r) as)"

text \<open>The drafts a session can be in: those some list of actions leads to from the empty draft.\<close>

inductive reachable :: "draft \<Rightarrow> bool" where
  reachable_empty: "reachable empty_draft"
| reachable_step: "reachable d \<Longrightarrow> handle d a = Some (d', es) \<Longrightarrow> reachable d'"

text \<open>Surroundings for concrete examples: a private chat, no configured channels.\<close>

definition sample_env :: env where
  "sample_env =
     \<lparr> unicode = sample_db, chat_private = True, user = Some (7, None),
       new_id = asc ''k3x9q2ab'', now_iso = asc ''2024-05-01T10:00:00+00:00'',
       now_text = asc ''01.05.2024 13:00'', RA_NOTIFY_CHAT_ID = 0,
       DISPATCH_ALERT_CHAT_ID = 0,
       jira_create_result = (Some (asc ''RA-101''), None),
       jira_transitions = (Some [], None),
       jira_do_transition = (\<lambda>i. None),
       create_chat_result = (None, Some (asc ''userbot disabled''), None),
       invite_link_result = Inl (asc ''no chat'') \<rparr>"

section \<open>Facts about strings\<close>

lemma asc_eq_iff [simp]: "asc s = asc t \<longleftrightarrow> s = t"
  by (simp add: asc_def inj_map_eq_map [OF inj_of_char])

section \<open>The step catalog and the secondary plate\<close>

lemmas steps_defs =
  steps_for_primary_def maybe_add_plate_ref_def list_insert_def is_dtp_def Let_def

text \<open>
  Claim C1.  The primary step list is a function of the ticket alone, and of its
  incident type and brand only: two tickets that agree on both get the same ordered list.
  The list contains \<open>plate_ref\<close> exactly when there is a ticket whose brand is SITRAK;
  it never repeats a key, and when \<open>plate_ref\<close> is present it is the element right after
  \<open>plate_vats\<close>, whether the incident is a collision (DTP) or not.
\<close>

theorem steps_for_primary_plate_ref:
  "(\<forall>tk tk'. incident_type tk = incident_type tk' \<and> brand tk = brand tk'
       \<longrightarrow> steps_for_primary (Some tk) = steps_for_primary (Some tk'))
   \<and> (asc ''plate_ref'' \<in> set (steps_for_primary t)
        \<longleftrightarrow> (\<exists>tk. t = Some tk \<and> brand tk = Some (asc ''SITRAK'')))
   \<and> distinct (steps_for_primary t)
   \<and> (asc ''plate_ref'' \<in> set (steps_for_primary t) \<longrightarrow>
        (\<exists>pre post. steps_for_primary t
            = pre @ [asc ''plate_vats'', asc ''plate_ref''] @ post))"
proof (intro conjI)
  show "\<forall>tk tk'. incident_type tk = incident_type tk' \<and> brand tk = brand tk'
       \<longrightarrow> steps_for_primary (Some tk) = steps_for_primary (Some tk')"
    by (simp add: steps_defs)
  show mem: "asc ''plate_ref'' \<in> set (steps_for_primary t)
        \<longleftrightarrow> (\<exists>tk. t = Some tk \<and> brand tk = Some (asc ''SITRAK''))"
    by (cases t) (simp_all add: steps_defs)
  show "distinct (steps_for_primary t)"
    by (cases t) (simp_all add: steps_defs)
  show "asc ''plate_ref'' \<in> set (steps_for_primary t) \<longrightarrow>
        (\<exists>pre post. steps_for_primary t
            = pre @ [asc ''plate_vats'', asc ''plate_ref''] @ post)"
  proof
    assume "asc ''plate_ref'' \<in> set (steps_for_primary t)"
    then obtain tk where t: "t = Some tk" and b: "brand tk = Some (asc ''SITRAK'')"
      using mem by blast
    show "\<exists>pre post. steps_for_primary t
            = pre @ [asc ''plate_vats'', asc ''plate_ref''] @ post"
    proof (cases "incident_type tk = Some (asc ''DTP'')")
      case True
      have "steps_for_primary t =
          [asc ''incident_type'', asc ''incident_source'', asc ''dtp_type'', asc ''brand'']
          @ [asc ''plate_vats'', asc ''plate_ref'']
          @ [asc ''dtp_vehicles'', asc ''location'', asc ''dtp_damage_text'',
              asc ''problem_desc'', asc ''obstacle_on_road'', asc ''notes'']"
        using t b True by (simp add: steps_defs)
      then show ?thesis by blast
    next
      case False
      have "steps_for_primary t =
          [asc ''incident_type'', asc ''incident_source'', asc ''brand'']
          @ [asc ''plate_vats'', asc ''plate_ref'']
          @ [asc ''location'', asc ''break_symptoms'', asc ''problem_desc'',
              asc ''obstacle_on_road'', asc ''notes'']"
        using t b False by (simp add: steps_defs)
      then show ?thesis by blast
    qed
  qed
qed

theorem steps_for_primary_plate_ref_witness:
  "steps_for_primary
     (Some (blank_ticket\<lparr>incident_type := Some (asc ''DTP''), brand := Some (asc ''SITRAK'')\<rparr>))
     = [asc ''incident_type'', asc ''incident_source'', asc ''dtp_type'', asc ''brand'',
        asc ''plate_vats'', asc ''plate_ref'', asc ''dtp_vehicles'', asc ''location'',
        asc ''dtp_damage_text'', asc ''problem_desc'', asc ''obstacle_on_road'', asc ''notes'']
   \<and> asc ''plate_ref'' \<in> set (steps_for_primary
        (Some (blank_ticket\<lparr>incident_type := Some (asc ''DTP''),
                            brand := Some (asc ''SITRAK'')\<rparr>)))"
  using steps_for_primary_plate_ref
    [of "Some (blank_ticket\<lparr>incident_type := Some (asc ''DTP''),
                             brand := Some (asc ''SITRAK'')\<rparr>)"]
  by (simp add: steps_defs blank_ticket_def)

section \<open>The close policy\<close>

lemma best_loop_find:
  "best_loop trs = (case find matches_label trs of None \<Rightarrow> None | Some tr \<Rightarrow> tr_id tr)"
  by (induction trs) (simp_all add: matches_label_def Let_def)

lemma client_best_loop_eq: "client_best_loop trs = best_loop trs"
  by (induction trs) (simp_all add: Let_def)

text \<open>
  Claim C10.  Given the same transitions list (a successful fetch, no error text) and the
  same tracker answers, \<open>close_issue_by_best_transition\<close> of \<open>regular_bot.py\<close> and
  \<open>jira_close_issue\<close> of \<open>jira_client.py\<close> return the same result and post the same
  transition id; their loops compute the same \<open>best\<close> for every list.
\<close>

theorem close_implementations_agree:
  "close_issue_by_best_transition (Some trs, None) do_transition
     = jira_close_issue (trs, None) do_transition
   \<and> client_best_loop trs = best_loop trs"
  by (simp add: close_issue_by_best_transition_def jira_close_issue_def client_best_loop_eq)

theorem close_implementations_agree_witness:
  "jira_close_issue
     ([\<lparr>tr_id = Some (asc ''11''), tr_name = Some (asc ''Reopen''), tr_to_name = None\<rparr>,
       \<lparr>tr_id = Some (asc ''31''), tr_name = Some (asc ''Finish''),
          tr_to_name = Some (asc ''Done'')\<rparr>,
       \<lparr>tr_id = Some (asc ''41''), tr_name = Some (asc ''Hold''), tr_to_name = None\<rparr>],
      None) (\<lambda>i. None)
   = (None, [asc ''31''])"
  using close_implementations_agree
    [of "[\<lparr>tr_id = Some (asc ''11''), tr_name = Some (asc ''Reopen''), tr_to_name = None\<rparr>,
          \<lparr>tr_id = Some (asc ''31''), tr_name = Some (asc ''Finish''),
             tr_to_name = Some (asc ''Done'')\<rparr>,
          \<lparr>tr_id = Some (asc ''41''), tr_name = Some (asc ''Hold''), tr_to_name = None\<rparr>]"
        "\<lambda>i. None"]
  by (simp add: close_issue_by_best_transition_def strip_def py_isspace_def asc_def
        preferred_close_statuses_def Let_def)

section \<open>Plate normalization\<close>

lemma match_region_Some:
  "match_region db ks r = Some reg \<Longrightarrow>
     \<exists>k \<in> set ks. k \<le> length r \<and> reg = take k r \<and> digits db reg \<and> re_end (drop k r)"
proof (induction ks)
  case Nil
  then show ?case by simp
next
  case (Cons k ks)
  show ?case
  proof (cases "k \<le> length r \<and> digits db (take k r) \<and> re_end (drop k r)")
    case True
    with Cons.prems have "reg = take k r" by simp
    with True show ?thesis by simp
  next
    case False
    with Cons.prems have "match_region db ks r = Some reg" by auto
    from Cons.IH [OF this] show ?thesis by auto
  qed
qed

lemma match_region_None:
  "match_region db ks r = None \<Longrightarrow> k \<in> set ks \<Longrightarrow>
     \<not> (k \<le> length r \<and> digits db (take k r) \<and> re_end (drop k r))"
proof (induction ks)
  case Nil
  then show ?case by simp
next
  case (Cons a ks)
  then show ?case by (cases "a \<le> length r \<and> digits db (take a r) \<and> re_end (drop a r)") auto
qed

lemma match_digits_Some:
  "match_digits db ns r = Some (d, l2, reg) \<Longrightarrow>
     \<exists>n \<in> set ns. n \<le> length r \<and> d = take n r \<and> digits db d
        \<and> 2 \<le> length (drop n r) \<and> l2 = take 2 (drop n r) \<and> series l2
        \<and> match_region db [3, 2] (drop 2 (drop n r)) = Some reg"
proof (induction ns)
  case Nil
  then show ?case by simp
next
  case (Cons n ns)
  let ?c = "n \<le> length r \<and> digits db (take n r)
         \<and> 2 \<le> length (drop n r) \<and> series (take 2 (drop n r))"
  show ?case
  proof (cases ?c)
    case True
    show ?thesis
    proof (cases "match_region db [3, 2] (drop 2 (drop n r))")
      case None
      with True Cons.prems have "match_digits db ns r = Some (d, l2, reg)" by simp
      from Cons.IH [OF this] show ?thesis by auto
    next
      case (Some g)
      with True Cons.prems have "d = take n r" "l2 = take 2 (drop n r)" "reg = g"
        by simp_all
      with True Some show ?thesis by simp
    qed
  next
    case False
    with Cons.prems have "match_digits db ns r = Some (d, l2, reg)" by auto
    from Cons.IH [OF this] show ?thesis by auto
  qed
qed

lemma match_digits_None:
  "match_digits db ns r = None \<Longrightarrow> n \<in> set ns \<Longrightarrow>
     \<not> (n \<le> length r \<and> digits db (take n r) \<and> 2 \<le> length (drop n r)
         \<and> series (take 2 (drop n r))
         \<and> match_region db [3, 2] (drop 2 (drop n r)) \<noteq> None)"
proof (induction ns)
  case Nil
  then show ?case by simp
next
  case (Cons a ns)
  let ?c = "a \<le> length r \<and> digits db (take a r)
         \<and> 2 \<le> length (drop a r) \<and> series (take 2 (drop a r))"
  show ?case
  proof (cases ?c)
    case True
    show ?thesis
    proof (cases "match_region db [3, 2] (drop 2 (drop a r))")
      case None
      with True Cons.prems(1) have n: "match_digits db ns r = None" by simp
      show ?thesis
      proof (cases "n = a")
        case True
        with None show ?thesis by simp
      next
        case False
        with Cons.prems(2) have "n \<in> set ns" by simp
        from Cons.IH [OF n this] show ?thesis .
      qed
    next
      case (Some g)
      with True Cons.prems(1) show ?thesis by simp
    qed
  next
    case False
    with Cons.prems(1) have n: "match_digits db ns r = None" by auto
    show ?thesis
    proof (cases "n = a")
      case True
      with False show ?thesis by blast
    next
      case F: False
      with Cons.prems(2) have "n \<in> set ns" by simp
      from Cons.IH [OF n this] show ?thesis .
    qed
  qed
qed

lemma match_plate_Some:
  assumes m: "match_plate db ns s = Some (l1, d, l2, reg)" and nl: "10 \<notin> set s"
  shows "s = l1 @ d @ l2 @ reg \<and> length l1 = 1 \<and> series l1 \<and> length d \<in> set ns
         \<and> digits db d \<and> length l2 = 2 \<and> series l2 \<and> length reg \<in> {2, 3}
         \<and> digits db reg"
proof -
  from m obtain c r where s: "s = c # r" and c: "c \<in> set SERIES_CYR"
    and md: "match_digits db ns r = Some (d, l2, reg)" and l1: "l1 = [c]"
    by (auto simp: match_plate_def split: list.splits if_splits option.splits)
  from match_digits_Some [OF md] obtain n where n: "n \<in> set ns" "n \<le> length r"
    and d: "d = take n r" "digits db d" and l2: "2 \<le> length (drop n r)"
      "l2 = take 2 (drop n r)" "series l2"
    and mr: "match_region db [3, 2] (drop 2 (drop n r)) = Some reg"
    by blast
  from match_region_Some [OF mr] obtain k where k: "k \<in> set [3, 2]"
      "k \<le> length (drop 2 (drop n r))" and reg: "reg = take k (drop 2 (drop n r))"
      "digits db reg" and e: "re_end (drop k (drop 2 (drop n r)))"
    by blast
  have "set (drop k (drop 2 (drop n r))) \<subseteq> set s"
    using s by (meson set_drop_subset set_subset_Cons subset_trans)
  with nl have "10 \<notin> set (drop k (drop 2 (drop n r)))" by blast
  with e have e': "drop k (drop 2 (drop n r)) = []" by (auto simp: re_end_def)
  have "r = take n r @ take 2 (drop n r) @ take k (drop 2 (drop n r))
              @ drop k (drop 2 (drop n r))"
    by (simp only: append_take_drop_id)
  with e' d l2 reg have r: "r = d @ l2 @ reg" by simp
  have ld: "length d = n" using d n by simp
  have ll: "length l2 = 2" using l2 by simp
  have lr: "length reg = k" using reg k by simp
  have "s = l1 @ d @ l2 @ reg" using s l1 r by simp
  moreover have "length l1 = 1" "series l1" using l1 c by (simp_all add: series_def)
  moreover have "length d \<in> set ns" using ld n(1) by simp
  moreover have "length reg \<in> {2, 3}" using lr k(1) by auto
  ultimately show ?thesis using d(2) ll l2(3) reg(2) by blast
qed

lemma match_plate_complete:
  assumes s: "s = l1 @ d @ l2 @ reg" and l1: "length l1 = 1" "series l1"
    and d: "length d \<in> set ns" "digits db d" and l2: "length l2 = 2" "series l2"
    and reg: "length reg \<in> {2, 3}" "digits db reg"
  shows "match_plate db ns s \<noteq> None"
proof -
  from l1 obtain c where c: "l1 = [c]" "c \<in> set SERIES_CYR"
    by (cases l1) (auto simp: series_def)
  let ?r = "d @ l2 @ reg"
  have mr: "match_region db [3, 2] reg \<noteq> None"
    using reg by (auto simp: re_end_def)
  have "\<not> (length d \<le> length ?r \<and> digits db (take (length d) ?r)
         \<and> 2 \<le> length (drop (length d) ?r)
         \<and> series (take 2 (drop (length d) ?r))
         \<and> match_region db [3, 2] (drop 2 (drop (length d) ?r)) \<noteq> None)"
    if "match_digits db ns ?r = None"
    using match_digits_None [OF that d(1)] .
  moreover have "length d \<le> length ?r \<and> digits db (take (length d) ?r)
         \<and> 2 \<le> length (drop (length d) ?r)
         \<and> series (take 2 (drop (length d) ?r))
         \<and> match_region db [3, 2] (drop 2 (drop (length d) ?r)) \<noteq> None"
    using d l2 mr by simp
  ultimately have "match_digits db ns ?r \<noteq> None" by blast
  then show ?thesis using s c by (auto simp: match_plate_def)
qed

lemma match_plate_groups:
  "match_plate db ns s = Some (l1, d, l2, reg) \<Longrightarrow> 10 \<notin> set s \<Longrightarrow> l1 @ d @ l2 @ reg = s"
  using match_plate_Some by metis

lemma plate_shape_iff:
  "plate_shape db n k s \<longleftrightarrow>
     (\<exists>l1 d l2 reg. s = l1 @ d @ l2 @ reg \<and> length l1 = 1 \<and> series l1 \<and> length d = n
        \<and> digits db d \<and> length l2 = 2 \<and> series l2 \<and> length reg = k \<and> digits db reg)"
  (is "?l \<longleftrightarrow> ?r")
proof
  assume ?l
  then have len: "length s = 1 + n + 2 + k" and a: "series (take 1 s)"
    "digits db (take n (drop 1 s))" "series (take 2 (drop n (drop 1 s)))"
    "digits db (drop 2 (drop n (drop 1 s)))"
    by (simp_all add: plate_shape_def)
  have "s = take 1 s @ take n (drop 1 s) @ take 2 (drop n (drop 1 s))
              @ drop 2 (drop n (drop 1 s))"
    by (simp only: append_take_drop_id)
  moreover have "length (take 1 s) = 1" "length (take n (drop 1 s)) = n"
    "length (take 2 (drop n (drop 1 s))) = 2" "length (drop 2 (drop n (drop 1 s))) = k"
    using len by simp_all
  ultimately show ?r using a by blast
next
  assume ?r
  then obtain l1 d l2 reg where "s = l1 @ d @ l2 @ reg" "length l1 = 1" "series l1"
    "length d = n" "digits db d" "length l2 = 2" "series l2" "length reg = k" "digits db reg"
    by blast
  then show ?l by (simp add: plate_shape_def)
qed


lemma compact_form_no_newline:
  assumes "\<not> py_isalnum db 10"
  shows "10 \<notin> set (compact_form db text)"
proof
  assume "10 \<in> set (compact_form db text)"
  then obtain c where c: "py_isalnum db c"
    and t: "(case map_of LAT_TO_CYR c of Some c' \<Rightarrow> c' | None \<Rightarrow> c) = 10"
    by (auto simp: compact_form_def translate_def)
  have "c = 10"
    using t by (auto simp: LAT_TO_CYR_def split: if_splits)
  with c assms show False by simp
qed

lemma plate_pattern_iff_match:
  assumes nl: "10 \<notin> set s"
  shows "plate_pattern db brnd s \<longleftrightarrow>
      (if brnd = Some (asc ''KIA_CEED'') then PLATE_RE_3 db s else PLATE_RE_34 db s) \<noteq> None"
    (is "?p \<longleftrightarrow> ?m \<noteq> None")
proof
  assume ?p
  then obtain n k where n: "n \<in> set (digit_counts brnd)" and k: "k \<in> {2, 3}"
    and sh: "plate_shape db n k s"
    by (auto simp: plate_pattern_def list_ex_iff)
  from sh obtain l1 d l2 reg where g: "s = l1 @ d @ l2 @ reg" "length l1 = 1" "series l1"
    "length d = n" "digits db d" "length l2 = 2" "series l2" "length reg = k" "digits db reg"
    unfolding plate_shape_iff by blast
  have rk: "length reg \<in> {2, 3}" using g k by simp
  show "?m \<noteq> None"
  proof (cases "brnd = Some (asc ''KIA_CEED'')")
    case True
    with n g have "length d \<in> set [3]" by (simp add: digit_counts_def)
    from match_plate_complete [OF g(1) g(2) g(3) this g(5) g(6) g(7) rk g(9)]
    show ?thesis using True by (simp add: PLATE_RE_3_def)
  next
    case False
    with n g have "length d \<in> set [4, 3]" by (auto simp: digit_counts_def)
    from match_plate_complete [OF g(1) g(2) g(3) this g(5) g(6) g(7) rk g(9)]
    show ?thesis using False by (simp add: PLATE_RE_34_def)
  qed
next
  assume m: "?m \<noteq> None"
  then obtain g where "?m = Some g" by blast
  moreover obtain l1 d l2 reg where "g = (l1, d, l2, reg)" by (rule prod_cases4)
  ultimately have r: "?m = Some (l1, d, l2, reg)" by simp
  let ?ns = "if brnd = Some (asc ''KIA_CEED'') then [3] else [4, 3::nat]"
  have "match_plate db ?ns s = Some (l1, d, l2, reg)"
    using r by (simp add: PLATE_RE_3_def PLATE_RE_34_def split: if_splits)
  from match_plate_Some [OF this nl]
  have g: "s = l1 @ d @ l2 @ reg" "length l1 = 1" "series l1" "length d \<in> set ?ns"
    "digits db d" "length l2 = 2" "series l2" "length reg \<in> {2, 3}" "digits db reg"
    by simp_all
  have "plate_shape db (length d) (length reg) s"
    unfolding plate_shape_iff using g by blast
  moreover have "length d \<in> set (digit_counts brnd)"
    using g(4) by (auto simp: digit_counts_def split: if_splits)
  ultimately show ?p
    using g(8) by (auto simp: plate_pattern_def list_ex_iff)
qed

lemma normalize_vats_plate_char:
  assumes "\<not> py_isalnum db 10"
  shows "normalize_vats_plate db text brnd =
     (if plate_pattern db brnd (compact_form db text) then Some (compact_form db text)
      else None)"
proof -
  let ?s = "compact_form db text"
  let ?m = "if brnd = Some (asc ''KIA_CEED'') then PLATE_RE_3 db ?s else PLATE_RE_34 db ?s"
  have nl: "10 \<notin> set ?s" by (rule compact_form_no_newline [OF assms])
  have e: "compact_form db [] = []" by (simp add: compact_form_def translate_def upper_def)
  show ?thesis
  proof (cases ?m)
    case None
    then have "\<not> plate_pattern db brnd ?s"
      using plate_pattern_iff_match [OF nl, of db brnd] by simp
    with None show ?thesis by (simp add: normalize_vats_plate_def Let_def)
  next
    case (Some g)
    obtain l1 d l2 reg where g: "g = (l1, d, l2, reg)" by (rule prod_cases4)
    let ?ns = "if brnd = Some (asc ''KIA_CEED'') then [3] else [4, 3::nat]"
    have mp: "match_plate db ?ns ?s = Some (l1, d, l2, reg)"
      using Some g by (simp add: PLATE_RE_3_def PLATE_RE_34_def split: if_splits)
    have eq: "l1 @ d @ l2 @ reg = ?s" by (rule match_plate_groups [OF mp nl])
    have p: "plate_pattern db brnd ?s"
      using plate_pattern_iff_match [OF nl, of db brnd] Some by auto
    have ne: "text \<noteq> []"
    proof
      assume "text = []"
      with mp e show False by (simp add: match_plate_def)
    qed
    show ?thesis using Some g eq p ne by (simp add: normalize_vats_plate_def Let_def)
  qed
qed


lemma series_not_digit:
  "unicode_facts db \<Longrightarrow> series l \<Longrightarrow> c \<in> set l \<Longrightarrow> \<not> re_digit db c"
  by (auto simp: unicode_facts_def series_def list_all_iff)

lemma pattern_groups:
  assumes p: "plate_pattern db brnd s"
  obtains l1 d l2 reg where "s = l1 @ d @ l2 @ reg" "length l1 = 1" "series l1"
    "length d \<in> set (digit_counts brnd)" "digits db d" "length l2 = 2" "series l2"
    "length reg \<in> {2, 3}" "digits db reg"
proof -
  from p obtain n k where n: "n \<in> set (digit_counts brnd)" and k: "k \<in> {2, 3}"
    and sh: "plate_shape db n k s"
    by (auto simp: plate_pattern_def list_ex_iff)
  from sh obtain l1 d l2 reg where g: "s = l1 @ d @ l2 @ reg" "length l1 = 1" "series l1"
    "length d = n" "digits db d" "length l2 = 2" "series l2" "length reg = k" "digits db reg"
    unfolding plate_shape_iff by blast
  show thesis
    by (rule that [of l1 d l2 reg]) (use g n k in simp_all)
qed

lemma format_vats_display_normalized:
  assumes uf: "unicode_facts db" and n: "normalize_vats_plate db text brnd = Some r"
  shows "\<exists>body reg. r = body @ reg \<and> format_vats_display db (Some r) = body @ [32] @ reg
           \<and> digits db reg \<and> length reg \<in> {2, 3}
           \<and> body \<noteq> [] \<and> \<not> re_digit db (last body)"
proof -
  have na: "\<not> py_isalnum db 10" using uf by (simp add: unicode_facts_def)
  from n have r: "r = compact_form db text" and p: "plate_pattern db brnd r"
    by (auto simp: normalize_vats_plate_char [OF na] split: if_splits)
  have nl: "10 \<notin> set r" unfolding r by (rule compact_form_no_newline [OF na])
  from p obtain l1 d l2 reg where g: "r = l1 @ d @ l2 @ reg" "length l1 = 1" "series l1"
    "length d \<in> set (digit_counts brnd)" "digits db d" "length l2 = 2" "series l2"
    "length reg \<in> {2, 3}" "digits db reg"
    by (rule pattern_groups)
  have "length d \<in> set [4, 3]" using g(4) by (auto simp: digit_counts_def split: if_splits)
  from match_plate_complete [OF g(1) g(2) g(3) this g(5) g(6) g(7) g(8) g(9)]
  obtain q where q: "PLATE_RE_34 db r = Some q" by (auto simp: PLATE_RE_34_def)
  obtain a b c e where q4: "q = (a, b, c, e)" by (rule prod_cases4)
  have mp: "match_plate db [4, 3] r = Some (a, b, c, e)"
    using q q4 by (simp add: PLATE_RE_34_def)
  from match_plate_Some [OF mp nl]
  have h: "r = a @ b @ c @ e" "length a = 1" "length c = 2" "series c"
    "length e \<in> {2, 3}" "digits db e"
    by simp_all
  have rne: "r \<noteq> []" using h(1) h(2) by auto
  have f: "format_vats_display db (Some r) = a @ b @ c @ [32] @ e"
    using q q4 rne by (simp add: format_vats_display_def Let_def)
  have cne: "c \<noteq> []" using h(3) by auto
  then have "last (a @ b @ c) = last c" by simp
  moreover have "last c \<in> set c" using cne by simp
  ultimately have nd: "\<not> re_digit db (last (a @ b @ c))"
    using series_not_digit [OF uf h(4)] by simp
  have "r = (a @ b @ c) @ e \<and> format_vats_display db (Some r) = (a @ b @ c) @ [32] @ e
           \<and> digits db e \<and> length e \<in> {2, 3}
           \<and> (a @ b @ c) \<noteq> [] \<and> \<not> re_digit db (last (a @ b @ c))"
    using h f nd cne by simp
  then show ?thesis by blast
qed

lemma takeWhile_block:
  assumes "list_all P d" "l \<noteq> []" "\<not> P (hd l)"
  shows "takeWhile P (d @ l @ rest) = d"
proof -
  have "takeWhile P (l @ rest) = []" using assms(2,3) by (cases l) simp_all
  then show ?thesis using assms(1) by (simp add: list_all_iff)
qed

lemma wrong_digit_count_rejected:
  assumes uf: "unicode_facts db"
    and w: "length (takeWhile (re_digit db) (drop 1 (compact_form db text)))
              \<notin> set (digit_counts brnd)
            \<or> length (takeWhile (re_digit db) (rev (compact_form db text))) \<notin> {2, 3}"
  shows "normalize_vats_plate db text brnd = None"
proof (rule ccontr)
  assume "normalize_vats_plate db text brnd \<noteq> None"
  have na: "\<not> py_isalnum db 10" using uf by (simp add: unicode_facts_def)
  let ?s = "compact_form db text"
  from \<open>normalize_vats_plate db text brnd \<noteq> None\<close> have p: "plate_pattern db brnd ?s"
    by (auto simp: normalize_vats_plate_char [OF na] split: if_splits)
  from p obtain l1 d l2 reg where g: "?s = l1 @ d @ l2 @ reg" "length l1 = 1" "series l1"
    "length d \<in> set (digit_counts brnd)" "digits db d" "length l2 = 2" "series l2"
    "length reg \<in> {2, 3}" "digits db reg"
    by (rule pattern_groups)
  have l2ne: "l2 \<noteq> []" using g(6) by auto
  have "hd l2 \<in> set l2" "last l2 \<in> set l2" using l2ne by simp_all
  then have nd: "\<not> re_digit db (hd l2)" "\<not> re_digit db (last l2)"
    using series_not_digit [OF uf g(7)] by simp_all
  have "drop 1 ?s = d @ l2 @ reg" using g(1) g(2) by simp
  then have a: "takeWhile (re_digit db) (drop 1 ?s) = d"
    using takeWhile_block [of "re_digit db" d l2 reg] g(5) l2ne nd(1)
    by (simp add: digits_def)
  have "rev ?s = rev reg @ rev l2 @ (rev d @ rev l1)" using g(1) by simp
  moreover have "takeWhile (re_digit db) (rev reg @ rev l2 @ (rev d @ rev l1)) = rev reg"
    using takeWhile_block [of "re_digit db" "rev reg" "rev l2" "rev d @ rev l1"] g(9) l2ne nd(2)
    by (simp add: digits_def hd_rev)
  ultimately have b: "takeWhile (re_digit db) (rev ?s) = rev reg" by simp
  from w a b g(4) g(8) show False by simp
qed


text \<open>
  Claim C6.  For every input string and brand, \<open>normalize_vats_plate\<close> computes the
  compact form of the input (upper-cased, reduced to its alphanumeric characters, the
  Latin look-alikes replaced by their Cyrillic counterparts) and returns it exactly when
  it has the brand's pattern: one series letter, three digits for KIA_CEED and three or
  four otherwise, two series letters, a region code of two or three digits; otherwise it
  returns \<open>None\<close>.  For every accepted input, \<open>format_vats_display\<close> of the result is
  the result with one space (code point 32) inserted before the region code, the two or
  three digits that end it.  An input whose digit block after the first character, or
  whose final digit block, has a wrong length is rejected.  The Unicode tables are a
  parameter; the two facts of \<open>unicode_facts\<close> are assumed of them.
\<close>

theorem normalize_vats_plate_spec:
  assumes uf: "unicode_facts db"
  shows "normalize_vats_plate db text brnd =
           (if plate_pattern db brnd (compact_form db text)
            then Some (compact_form db text) else None)
     \<and> (\<forall>r. normalize_vats_plate db text brnd = Some r \<longrightarrow>
           (\<exists>body reg. r = body @ reg
              \<and> format_vats_display db (Some r) = body @ [32] @ reg
              \<and> digits db reg \<and> length reg \<in> {2, 3}
              \<and> body \<noteq> [] \<and> \<not> re_digit db (last body)))
     \<and> (length (takeWhile (re_digit db) (drop 1 (compact_form db text)))
              \<notin> set (digit_counts brnd)
          \<or> length (takeWhile (re_digit db) (rev (compact_form db text))) \<notin> {2, 3}
          \<longrightarrow> normalize_vats_plate db text brnd = None)"
proof (intro conjI allI impI)
  have na: "\<not> py_isalnum db 10" using uf by (simp add: unicode_facts_def)
  show "normalize_vats_plate db text brnd =
           (if plate_pattern db brnd (compact_form db text)
            then Some (compact_form db text) else None)"
    by (rule normalize_vats_plate_char [OF na])
next
  fix r assume "normalize_vats_plate db text brnd = Some r"
  then show "\<exists>body reg. r = body @ reg
              \<and> format_vats_display db (Some r) = body @ [32] @ reg
              \<and> digits db reg \<and> length reg \<in> {2, 3}
              \<and> body \<noteq> [] \<and> \<not> re_digit db (last body)"
    by (rule format_vats_display_normalized [OF uf])
next
  assume "length (takeWhile (re_digit db) (drop 1 (compact_form db text)))
              \<notin> set (digit_counts brnd)
          \<or> length (takeWhile (re_digit db) (rev (compact_form db text))) \<notin> {2, 3}"
  then show "normalize_vats_plate db text brnd = None"
    by (rule wrong_digit_count_rejected [OF uf])
qed

lemma unicode_facts_sample: "unicode_facts sample_db"
  by (simp add: unicode_facts_def sample_db_def SERIES_CYR_def)

lemma compact_sample:
  "compact_form sample_db (asc ''a 123-Bc 77'') = [1040, 49, 50, 51, 1042, 1057, 55, 55]"
  by (simp add: compact_form_def upper_def translate_def sample_db_def asc_def LAT_TO_CYR_def)

lemma compact_sample4:
  "compact_form sample_db (asc ''a1234bc77'') = [1040, 49, 50, 51, 52, 1042, 1057, 55, 55]"
  by (simp add: compact_form_def upper_def translate_def sample_db_def asc_def LAT_TO_CYR_def)

theorem normalize_vats_plate_spec_witness:
  "unicode_facts sample_db
   \<and> normalize_vats_plate sample_db (asc ''a 123-Bc 77'') None
        = Some [1040, 49, 50, 51, 1042, 1057, 55, 55]
   \<and> format_vats_display sample_db (Some [1040, 49, 50, 51, 1042, 1057, 55, 55])
        = [1040, 49, 50, 51, 1042, 1057, 32, 55, 55]
   \<and> normalize_vats_plate sample_db (asc ''a1234bc77'') (Some (asc ''KIA_CEED'')) = None"
proof -
  have p: "plate_pattern sample_db None [1040, 49, 50, 51, 1042, 1057, 55, 55]"
    by (simp add: plate_pattern_def plate_shape_def digit_counts_def series_def digits_def
          SERIES_CYR_def sample_db_def)
  have f: "format_vats_display sample_db (Some [1040, 49, 50, 51, 1042, 1057, 55, 55])
        = [1040, 49, 50, 51, 1042, 1057, 32, 55, 55]"
    by (simp add: format_vats_display_def PLATE_RE_34_def match_plate_def series_def digits_def
          SERIES_CYR_def sample_db_def re_end_def Let_def)
  have w: "length (takeWhile (re_digit sample_db)
              (drop 1 (compact_form sample_db (asc ''a1234bc77''))))
             \<notin> set (digit_counts (Some (asc ''KIA_CEED'')))"
    unfolding compact_sample4 by (simp add: digit_counts_def sample_db_def)
  have a: "normalize_vats_plate sample_db (asc ''a 123-Bc 77'') None
        = Some [1040, 49, 50, 51, 1042, 1057, 55, 55]"
    using normalize_vats_plate_spec [OF unicode_facts_sample, of "asc ''a 123-Bc 77''" None] p
    by (simp add: compact_sample)
  have b: "normalize_vats_plate sample_db (asc ''a1234bc77'') (Some (asc ''KIA_CEED'')) = None"
    using normalize_vats_plate_spec
      [OF unicode_facts_sample, of "asc ''a1234bc77''" "Some (asc ''KIA_CEED'')"] w
    by blast
  show ?thesis using unicode_facts_sample a f b by blast
qed


section \<open>Navigation keeps the ticket\<close>

lemma clamp_fields [simp]:
  "ticket (clamp_step_idx d) = ticket d" "mode (clamp_step_idx d) = mode d"
  "editing (clamp_step_idx d) = editing d"
  "incident_source_custom_input (clamp_step_idx d) = incident_source_custom_input d"
  by (simp_all add: clamp_step_idx_def Let_def)

lemma set_step_idx_fields [simp]:
  "ticket (set_step_idx d i) = ticket d" "mode (set_step_idx d i) = mode d"
  "editing (set_step_idx d i) = editing d"
  "incident_source_custom_input (set_step_idx d i) = incident_source_custom_input d"
  by (simp_all add: set_step_idx_def)

lemma goto_next_fields [simp]:
  "ticket (goto_next_step d) = ticket d" "mode (goto_next_step d) = mode d"
  "editing (goto_next_step d) = editing d"
  "incident_source_custom_input (goto_next_step d) = incident_source_custom_input d"
  by (simp_all add: goto_next_step_def)

lemma goto_prev_fields [simp]:
  "ticket (goto_prev_step d) = ticket d" "mode (goto_prev_step d) = mode d"
  "editing (goto_prev_step d) = editing d"
  "incident_source_custom_input (goto_prev_step d) = incident_source_custom_input d"
  by (simp_all add: goto_prev_step_def)

lemma ask_next_fields [simp]:
  "ticket (fst (ask_next a d t)) = ticket d" "mode (fst (ask_next a d t)) = mode d"
  "editing (fst (ask_next a d t)) = editing d"
  by (simp_all add: ask_next_def Let_def)


section \<open>The vehicle counter\<close>

lemma split_bar_no_bar: "124 \<notin> set k \<Longrightarrow> split_bar k = [k]"
  by (induction k) simp_all

lemma split_veh_plus: "124 \<notin> set k \<Longrightarrow> split_bar (asc ''veh|plus|'' @ k) = [asc ''veh'', asc ''plus'', k]"
  by (simp add: asc_def split_bar_no_bar)

lemma split_veh_minus: "124 \<notin> set k \<Longrightarrow> split_bar (asc ''veh|minus|'' @ k) = [asc ''veh'', asc ''minus'', k]"
  by (simp add: asc_def split_bar_no_bar)

lemma starts_veh_plus: "startswith (asc ''veh|plus|'' @ k) (asc ''veh|'')"
  by (simp add: startswith_def asc_def)

lemma starts_veh_minus: "startswith (asc ''veh|minus|'' @ k) (asc ''veh|'')"
  by (simp add: startswith_def asc_def)

lemma on_callback_veh_plus:
  assumes "chat_private e" "ticket d = Some t" "124 \<notin> set k"
  shows "on_callback e d (asc ''veh|plus|'' @ k) =
     Some (d\<lparr>ticket := Some (t\<lparr>dtp_vehicles := (dtp_vehicles t)(k \<mapsto> max 0 (veh_get t k + 1))\<rparr>)\<rparr>,
           [AnswerQuery,
            EditMessage (VehStepText ((dtp_vehicles t)(k \<mapsto> max 0 (veh_get t k + 1))))
              (KbVehCounter ((dtp_vehicles t)(k \<mapsto> max 0 (veh_get t k + 1))))])"
  using assms
  by (simp add: on_callback_def wrap_def starts_veh_plus cb_veh_def split_veh_plus Let_def)

lemma on_callback_veh_minus:
  assumes "chat_private e" "ticket d = Some t" "124 \<notin> set k"
  shows "on_callback e d (asc ''veh|minus|'' @ k) =
     Some (d\<lparr>ticket := Some (t\<lparr>dtp_vehicles := (dtp_vehicles t)(k \<mapsto> max 0 (veh_get t k - 1))\<rparr>)\<rparr>,
           [AnswerQuery,
            EditMessage (VehStepText ((dtp_vehicles t)(k \<mapsto> max 0 (veh_get t k - 1))))
              (KbVehCounter ((dtp_vehicles t)(k \<mapsto> max 0 (veh_get t k - 1))))])"
  using assms
  by (simp add: on_callback_def wrap_def starts_veh_minus cb_veh_def split_veh_minus Let_def)


text \<open>
  Claim C7.  In a private chat, for a draft with a ticket and a vehicle class \<open>k\<close> (a
  string without the separator \<open>|\<close>): the button \<open>veh|plus|k\<close> stores
  \<open>max 0 (count + 1)\<close> for \<open>k\<close>, which is the count plus one whenever the count is not
  negative; \<open>veh|minus|k\<close> stores \<open>max 0 (count - 1)\<close>, the count minus one when the
  count is at least one and never a negative number; neither touches another class.
  Starting from the empty mapping, three increments and one decrement of \<open>k\<close> leave
  the count 2.
\<close>

theorem vehicle_counter:
  assumes p: "chat_private e" and t: "ticket d = Some t" and k: "124 \<notin> set k"
  shows "(\<exists>d1 es t1. on_callback e d (asc ''veh|plus|'' @ k) = Some (d1, es)
            \<and> ticket d1 = Some t1
            \<and> veh_get t1 k = max 0 (veh_get t k + 1)
            \<and> (0 \<le> veh_get t k \<longrightarrow> veh_get t1 k = veh_get t k + 1)
            \<and> (\<forall>k'. k' \<noteq> k \<longrightarrow> dtp_vehicles t1 k' = dtp_vehicles t k'))
       \<and> (\<exists>d1 es t1. on_callback e d (asc ''veh|minus|'' @ k) = Some (d1, es)
            \<and> ticket d1 = Some t1
            \<and> veh_get t1 k = max 0 (veh_get t k - 1)
            \<and> 0 \<le> veh_get t1 k
            \<and> (1 \<le> veh_get t k \<longrightarrow> veh_get t1 k = veh_get t k - 1)
            \<and> (\<forall>k'. k' \<noteq> k \<longrightarrow> dtp_vehicles t1 k' = dtp_vehicles t k'))
       \<and> (dtp_vehicles t = Map.empty \<longrightarrow>
            (\<exists>d4 t4. run d [Callback e (asc ''veh|plus|'' @ k), Callback e (asc ''veh|plus|'' @ k),
                             Callback e (asc ''veh|plus|'' @ k), Callback e (asc ''veh|minus|'' @ k)]
                        = Some d4
               \<and> ticket d4 = Some t4 \<and> veh_get t4 k = 2 \<and> dtp_vehicles t4 k = Some 2))"
proof (intro conjI impI)
  show "\<exists>d1 es t1. on_callback e d (asc ''veh|plus|'' @ k) = Some (d1, es)
            \<and> ticket d1 = Some t1
            \<and> veh_get t1 k = max 0 (veh_get t k + 1)
            \<and> (0 \<le> veh_get t k \<longrightarrow> veh_get t1 k = veh_get t k + 1)
            \<and> (\<forall>k'. k' \<noteq> k \<longrightarrow> dtp_vehicles t1 k' = dtp_vehicles t k')"
    unfolding on_callback_veh_plus [OF p t k] by (simp add: veh_get_def)
  show "\<exists>d1 es t1. on_callback e d (asc ''veh|minus|'' @ k) = Some (d1, es)
            \<and> ticket d1 = Some t1
            \<and> veh_get t1 k = max 0 (veh_get t k - 1)
            \<and> 0 \<le> veh_get t1 k
            \<and> (1 \<le> veh_get t k \<longrightarrow> veh_get t1 k = veh_get t k - 1)
            \<and> (\<forall>k'. k' \<noteq> k \<longrightarrow> dtp_vehicles t1 k' = dtp_vehicles t k')"
    unfolding on_callback_veh_minus [OF p t k] by (simp add: veh_get_def)
next
  assume em: "dtp_vehicles t = Map.empty"
  let ?plus = "asc ''veh|plus|'' @ k" and ?minus = "asc ''veh|minus|'' @ k"
  define t1 where "t1 = t\<lparr>dtp_vehicles := [k \<mapsto> 1]\<rparr>"
  define t2 where "t2 = t\<lparr>dtp_vehicles := [k \<mapsto> 2]\<rparr>"
  define t3 where "t3 = t\<lparr>dtp_vehicles := [k \<mapsto> 3]\<rparr>"
  have s1: "fst (the (on_callback e d ?plus)) = d\<lparr>ticket := Some t1\<rparr>"
    unfolding on_callback_veh_plus [OF p t k] by (simp add: veh_get_def em t1_def)
  have s2: "fst (the (on_callback e (d\<lparr>ticket := Some t1\<rparr>) ?plus)) = d\<lparr>ticket := Some t2\<rparr>"
    unfolding on_callback_veh_plus [OF p _ k, of "d\<lparr>ticket := Some t1\<rparr>" t1, simplified]
    by (simp add: veh_get_def t1_def t2_def)
  have s3: "fst (the (on_callback e (d\<lparr>ticket := Some t2\<rparr>) ?plus)) = d\<lparr>ticket := Some t3\<rparr>"
    unfolding on_callback_veh_plus [OF p _ k, of "d\<lparr>ticket := Some t2\<rparr>" t2, simplified]
    by (simp add: veh_get_def t2_def t3_def)
  have s4: "fst (the (on_callback e (d\<lparr>ticket := Some t3\<rparr>) ?minus)) = d\<lparr>ticket := Some t2\<rparr>"
    unfolding on_callback_veh_minus [OF p _ k, of "d\<lparr>ticket := Some t3\<rparr>" t3, simplified]
    by (simp add: veh_get_def t2_def t3_def)
  have n1: "on_callback e d ?plus \<noteq> None"
    unfolding on_callback_veh_plus [OF p t k] by simp
  have n2: "on_callback e (d\<lparr>ticket := Some t1\<rparr>) ?plus \<noteq> None"
    unfolding on_callback_veh_plus [OF p _ k, of "d\<lparr>ticket := Some t1\<rparr>" t1, simplified] by simp
  have n3: "on_callback e (d\<lparr>ticket := Some t2\<rparr>) ?plus \<noteq> None"
    unfolding on_callback_veh_plus [OF p _ k, of "d\<lparr>ticket := Some t2\<rparr>" t2, simplified] by simp
  have n4: "on_callback e (d\<lparr>ticket := Some t3\<rparr>) ?minus \<noteq> None"
    unfolding on_callback_veh_minus [OF p _ k, of "d\<lparr>ticket := Some t3\<rparr>" t3, simplified] by simp
  have "run d [Callback e ?plus, Callback e ?plus, Callback e ?plus, Callback e ?minus]
          = Some (d\<lparr>ticket := Some t2\<rparr>)"
    using n1 n2 n3 n4 s1 s2 s3 s4 by (auto split: option.splits)
  moreover have "veh_get t2 k = 2" "dtp_vehicles t2 k = Some 2"
    by (simp_all add: veh_get_def t2_def)
  ultimately show "\<exists>d4 t4. run d [Callback e ?plus, Callback e ?plus, Callback e ?plus,
                             Callback e ?minus] = Some d4
               \<and> ticket d4 = Some t4 \<and> veh_get t4 k = 2 \<and> dtp_vehicles t4 k = Some 2"
    by simp
qed

theorem vehicle_counter_witness:
  "\<exists>d4 t4. run (empty_draft\<lparr>ticket := Some blank_ticket\<rparr>)
       [Callback sample_env (asc ''veh|plus|truck''), Callback sample_env (asc ''veh|plus|truck''),
        Callback sample_env (asc ''veh|plus|truck''), Callback sample_env (asc ''veh|minus|truck'')]
         = Some d4 \<and> ticket d4 = Some t4 \<and> dtp_vehicles t4 (asc ''truck'') = Some 2"
proof -
  have a: "chat_private sample_env" by (simp add: sample_env_def)
  have b: "ticket (empty_draft\<lparr>ticket := Some blank_ticket\<rparr>) = Some blank_ticket" by simp
  have c: "124 \<notin> set (asc ''truck'')" by (simp add: asc_def)
  have e: "dtp_vehicles blank_ticket = Map.empty" by (simp add: blank_ticket_def)
  have p: "asc ''veh|plus|'' @ asc ''truck'' = asc ''veh|plus|truck''"
    "asc ''veh|minus|'' @ asc ''truck'' = asc ''veh|minus|truck''"
    by (simp_all add: asc_def)
  from vehicle_counter [OF a b c] e show ?thesis unfolding p by blast
qed


section \<open>Dispatch of the callback data\<close>

lemma startswith_nth:
  assumes "startswith s p" "i < length p"
  shows "i < length s \<and> s ! i = p ! i"
proof -
  from assms(1) have e: "take (length p) s = p" by (simp add: startswith_def)
  have "length (take (length p) s) = min (length s) (length p)" by simp
  with e have l: "length p \<le> length s" by simp
  have "take (length p) s ! i = s ! i" using assms(2) by simp
  with e have "p ! i = s ! i" by simp
  with l assms(2) show ?thesis by simp
qed

lemma startswith_clash:
  "startswith s p \<Longrightarrow> i < length p \<Longrightarrow> i < length q \<Longrightarrow> p ! i \<noteq> q ! i
     \<Longrightarrow> \<not> startswith s q"
  using startswith_nth by metis

lemma startswith_self: "startswith p p"
  by (simp add: startswith_def)

lemma act_dispatch:
  assumes a: "startswith data (asc ''act|'')"
  shows "\<not> startswith data (asc ''veh|'')" "\<not> startswith data (asc ''nav|'')"
    "\<not> startswith data (asc ''set|'')" "data \<noteq> asc ''summary|edit''"
    "data \<noteq> asc ''edit|cancel''" "\<not> startswith data (asc ''edit|field|'')"
    "\<not> startswith data (asc ''dispatch|'')" "data \<noteq> asc ''summary|create''"
proof -
  have c: "\<not> startswith data q" if "0 < length q" "q ! 0 \<noteq> 97" for q
    by (rule startswith_clash [OF a, of 0]) (use that in \<open>simp_all add: asc_def\<close>)
  show "\<not> startswith data (asc ''veh|'')" "\<not> startswith data (asc ''nav|'')"
    "\<not> startswith data (asc ''set|'')" "\<not> startswith data (asc ''edit|field|'')"
    "\<not> startswith data (asc ''dispatch|'')"
    by (rule c; simp add: asc_def)+
  have "\<not> startswith data (asc ''summary|edit'')" "\<not> startswith data (asc ''edit|cancel'')"
    "\<not> startswith data (asc ''summary|create'')"
    by (rule c; simp add: asc_def)+
  then show "data \<noteq> asc ''summary|edit''" "data \<noteq> asc ''edit|cancel''"
    "data \<noteq> asc ''summary|create''"
    using startswith_self by metis+
qed

lemma nav_dispatch:
  assumes a: "startswith data (asc ''nav|'')"
  shows "\<not> startswith data (asc ''veh|'')"
  by (rule startswith_clash [OF a, of 0]) (simp_all add: asc_def)

lemma set_dispatch:
  assumes a: "startswith data (asc ''set|'')"
  shows "\<not> startswith data (asc ''veh|'')" "\<not> startswith data (asc ''nav|'')"
  by (rule startswith_clash [OF a, of 0]; simp add: asc_def)+

lemma on_callback_veh:
  assumes "chat_private e" and "ticket d = Some t" and "startswith data (asc ''veh|'')"
  shows "on_callback e d data = wrap (cb_veh d t data)"
  using assms by (simp add: on_callback_def wrap_def)

lemma on_callback_nav:
  assumes "chat_private e" and "ticket d = Some t" and "startswith data (asc ''nav|'')"
  shows "on_callback e d data = wrap (cb_nav e d t data)"
  using assms nav_dispatch [OF assms(3)] by (simp add: on_callback_def wrap_def)

lemma on_callback_set:
  assumes "chat_private e" and "ticket d = Some t" and "startswith data (asc ''set|'')"
  shows "on_callback e d data = wrap (cb_set e d t data)"
  using assms set_dispatch [OF assms(3)] by (simp add: on_callback_def wrap_def)

lemma on_callback_act:
  assumes "chat_private e" and "ticket d = Some t" and "startswith data (asc ''act|'')"
  shows "on_callback e d data = wrap (cb_act e d t data)"
  using assms act_dispatch [OF assms(3)] by (simp add: on_callback_def wrap_def)

lemma split_act:
  "split_bar_max 2 (asc ''act|ra|'' @ i) = [asc ''act'', asc ''ra'', i]"
  "split_bar_max 2 (asc ''act|close|'' @ i) = [asc ''act'', asc ''close'', i]"
  by (simp_all add: asc_def numeral_2_eq_2)

lemma starts_act:
  "startswith (asc ''act|ra|'' @ i) (asc ''act|'')"
  "startswith (asc ''act|close|'' @ i) (asc ''act|'')"
  by (simp_all add: startswith_def asc_def)

lemma on_callback_act_ra:
  assumes "chat_private e" and "ticket d = Some t"
  shows "on_callback e d (asc ''act|ra|'' @ id_f t) = wrap (act_ra d t)"
  unfolding on_callback_act [OF assms starts_act(1)]
  by (simp add: cb_act_def split_act Let_def)

lemma on_callback_act_close:
  assumes "chat_private e" and "ticket d = Some t"
  shows "on_callback e d (asc ''act|close|'' @ id_f t) = wrap (act_close e d t)"
  unfolding on_callback_act [OF assms starts_act(2)]
  by (simp add: cb_act_def split_act Let_def)



section \<open>Entering the secondary workflow\<close>

text \<open>
  Claim C2.  In a private chat, when the action \<open>act|ra|\<close> for the ticket of the draft
  arrives and the ticket's \<open>jira_main\<close> is unset (\<open>None\<close> or empty), the handler answers
  the query, replaces the message by the fixed text \<open>need_main_before_ra\<close>, and returns
  the draft as it was: ticket, cursor, mode and flags are unchanged, and no call reaches
  the tracker, the chat factory or another chat.
\<close>

theorem enter_ra_without_issue_rejected:
  assumes "chat_private e" and "ticket d = Some t" and "\<not> truthy (jira_main t)"
  shows "on_callback e d (asc ''act|ra|'' @ id_f t)
           = Some (d, [AnswerQuery, EditMessage NeedMainBeforeRa KbAfterMain])
         \<and> (\<forall>d' es. on_callback e d (asc ''act|ra|'' @ id_f t) = Some (d', es)
               \<longrightarrow> d' = d \<and> \<not> list_ex is_gateway_call es)"
  using assms(3) by (simp add: on_callback_act_ra [OF assms(1,2)] act_ra_def wrap_def)

theorem enter_ra_without_issue_rejected_witness:
  "on_callback sample_env (empty_draft\<lparr>ticket := Some blank_ticket\<rparr>) (asc ''act|ra|'')
     = Some (empty_draft\<lparr>ticket := Some blank_ticket\<rparr>,
             [AnswerQuery, EditMessage NeedMainBeforeRa KbAfterMain])"
proof -
  have a: "chat_private sample_env" by (simp add: sample_env_def)
  have b: "ticket (empty_draft\<lparr>ticket := Some blank_ticket\<rparr>) = Some blank_ticket" by simp
  have c: "\<not> truthy (jira_main blank_ticket)" by (simp add: blank_ticket_def)
  have i: "id_f blank_ticket = []" by (simp add: blank_ticket_def)
  from enter_ra_without_issue_rejected [OF a b c] show ?thesis by (simp add: i)
qed


end
